theory Spec2Isabelle
  imports Complex_Main
begin

chapter \<open>The children's book generator: data model and operations\<close>

section \<open>Story variables and context pruning (src/src/promptBuilder.js)\<close>

text \<open>
  Story variables are a JSON-like tree. A JavaScript value is one of the constructors
  below. Numbers are never inspected by the pruning code beyond being returned as they
  are, so their type is a parameter. An object is the list of its own enumerable
  entries in the order of \<^verbatim>\<open>Object.entries\<close>; its keys are ordinary property names
  (not \<^verbatim>\<open>__proto__\<close>, which an assignment treats specially).
\<close>

datatype 'n jsval =
    JUndefined
  | JNull
  | JBool bool
  | JNum 'n
  | JStr string
  | JArr "'n jsval list"
  | JObj "(string \<times> 'n jsval) list"

text \<open>\<^verbatim>\<open>acc[key] = v\<close>: an existing property keeps its place, a new one goes last.\<close>

fun set_property :: "(string \<times> 'v) list \<Rightarrow> string \<Rightarrow> 'v \<Rightarrow> (string \<times> 'v) list" where
  "set_property [] key v = [(key, v)]"
| "set_property ((k, w) # acc) key v =
     (if k = key then (k, v) # acc else (k, w) # set_property acc key v)"

fun isArray :: "'n jsval \<Rightarrow> bool" where
  "isArray (JArr xs) = True"
| "isArray _ = False"

text \<open>\<^verbatim>\<open>typeof v === "object"\<close> holds of arrays, objects and \<^verbatim>\<open>null\<close>.\<close>

fun typeof_object :: "'n jsval \<Rightarrow> bool" where
  "typeof_object JNull = True"
| "typeof_object (JArr xs) = True"
| "typeof_object (JObj es) = True"
| "typeof_object _ = False"

fun js_length :: "'n jsval \<Rightarrow> nat" where
  "js_length (JArr xs) = length xs"
| "js_length (JStr s) = length s"
| "js_length _ = 0"

text \<open>The number of \<^verbatim>\<open>Object.keys(v)\<close>: the entries of an object, the indices of an array.\<close>

fun keys_length :: "'n jsval \<Rightarrow> nat" where
  "keys_length (JObj es) = length es"
| "keys_length (JArr xs) = length xs"
| "keys_length (JStr s) = length s"
| "keys_length _ = 0"

text \<open>
  The test guarding \<^verbatim>\<open>acc[key] = cleanValue\<close> in the reducer of \<^verbatim>\<open>cleanObject\<close>:
  \<^verbatim>\<open>cleanValue != null && cleanValue !== "" && !(Array.isArray(cleanValue) && !cleanValue.length)
     && !(typeof cleanValue === "object" && !Object.keys(cleanValue).length)\<close>.
\<close>

definition keep_clean_value :: "'n jsval \<Rightarrow> bool" where
  "keep_clean_value cleanValue \<longleftrightarrow>
     (cleanValue \<noteq> JNull \<and> cleanValue \<noteq> JUndefined) \<and>
     cleanValue \<noteq> JStr [] \<and>
     \<not> (isArray cleanValue \<and> js_length cleanValue = 0) \<and>
     \<not> (typeof_object cleanValue \<and> keys_length cleanValue = 0)"

text \<open>
  \<^verbatim>\<open>cleanObject\<close>, the local function of \<^verbatim>\<open>personalizeChapterContent\<close>. A value that is
  falsy or not of type object is returned as it is (last equation). An array loses its
  \<^verbatim>\<open>null\<close> and \<^verbatim>\<open>undefined\<close> elements, then every remaining element is cleaned; an
  object is rebuilt by the reducer from an empty accumulator. Either collapses to
  \<^verbatim>\<open>undefined\<close> when nothing is left.
\<close>

fun cleanObject :: "'n jsval \<Rightarrow> 'n jsval" where
  "cleanObject (JArr obj) =
     (let cleaned = map cleanObject (filter (\<lambda>item. item \<noteq> JNull \<and> item \<noteq> JUndefined) obj)
      in if length cleaned \<noteq> 0 then JArr cleaned else JUndefined)"
| "cleanObject (JObj obj) =
     (let cleaned = foldl (\<lambda>acc (key, v).
                       let cleanValue = cleanObject v
                       in if keep_clean_value cleanValue then set_property acc key cleanValue else acc)
                     [] obj
      in if length cleaned \<noteq> 0 then JObj cleaned else JUndefined)"
| "cleanObject obj = obj"

text \<open>The three empty values: \<^verbatim>\<open>""\<close>, \<^verbatim>\<open>[]\<close> and \<^verbatim>\<open>{}\<close>.\<close>

fun is_empty_value :: "'n jsval \<Rightarrow> bool" where
  "is_empty_value (JStr s) = (s = [])"
| "is_empty_value (JArr xs) = (xs = [])"
| "is_empty_value (JObj es) = (es = [])"
| "is_empty_value _ = False"

text \<open>No object inside the tree, at any depth, has a key whose value is empty.\<close>

fun no_empty_keys :: "'n jsval \<Rightarrow> bool" where
  "no_empty_keys (JArr xs) = list_all no_empty_keys xs"
| "no_empty_keys (JObj es) = list_all (\<lambda>(k, v). \<not> is_empty_value v \<and> no_empty_keys v) es"
| "no_empty_keys _ = True"


text \<open>
  Predicates for the analysis of a second pruning pass. A tree has no undefined element
  when no array inside it, at any depth, holds \<^verbatim>\<open>undefined\<close>. A tree is settled when
  pruning has nothing left to do on it: its arrays are non-empty and hold neither
  \<^verbatim>\<open>null\<close> nor \<^verbatim>\<open>undefined\<close>, its objects are non-empty and every value passes the
  test of the reducer.
\<close>

fun no_undefined_elements :: "'n jsval \<Rightarrow> bool" where
  "no_undefined_elements (JArr xs) = list_all (\<lambda>x. x \<noteq> JUndefined \<and> no_undefined_elements x) xs"
| "no_undefined_elements (JObj es) = list_all (\<lambda>(k, v). no_undefined_elements v) es"
| "no_undefined_elements _ = True"

fun settled :: "'n jsval \<Rightarrow> bool" where
  "settled (JArr xs) = (xs \<noteq> [] \<and> list_all (\<lambda>x. x \<noteq> JNull \<and> x \<noteq> JUndefined \<and> settled x) xs)"
| "settled (JObj es) = (es \<noteq> [] \<and> distinct (map fst es) \<and> list_all (\<lambda>(k, v). keep_clean_value v \<and> settled v) es)"
| "settled _ = True"

text \<open>
  The invariant of the reducer's accumulator: distinct keys, and every value is the
  cleaned form of a value of the object and passed the test.
\<close>

definition cleaned_entries :: "(string \<times> 'n jsval) list \<Rightarrow> (string \<times> 'n jsval) list \<Rightarrow> bool" where
  "cleaned_entries obj acc \<longleftrightarrow>
     distinct (map fst acc) \<and>
     (\<forall>k c. (k, c) \<in> set acc \<longrightarrow>
        keep_clean_value c \<and> (\<exists>k' v. (k', v) \<in> set obj \<and> c = cleanObject v))"


section \<open>Waiting for a Mystic task (src/src/imageGenerator.js)\<close>

text \<open>
  What one \<^verbatim>\<open>GET {apiUrl}/{taskId}\<close> yields: a body with \<^verbatim>\<open>data.status\<close> and the optional
  list \<^verbatim>\<open>data.generated\<close>, or an exception of the request (network failure, malformed body).
\<close>

datatype poll_response =
    Response string "string list option"
  | RequestFailed string

text \<open>
  The two errors of \<^verbatim>\<open>checkMysticTaskStatus\<close>. Whatever is thrown inside the loop body,
  the \<^verbatim>\<open>Task failed\<close> error included, is caught and thrown again as
  \<^verbatim>\<open>Error checking task status: ...\<close>; the timeout is thrown after the loop.
\<close>

datatype failure_cause =
    TaskFailed string "string list option"
  | RequestError string

datatype mystic_error =
    ErrorCheckingTaskStatus failure_cause
  | TimeoutAfter nat

text \<open>The result, with the number of status requests sent and of intervals slept.\<close>

record poll_result =
  outcome :: "mystic_error + string"
  polls :: nat
  sleeps :: nat

text \<open>\<^verbatim>\<open>generated?.length > 0\<close>\<close>

fun has_generated :: "string list option \<Rightarrow> bool" where
  "has_generated (Some (url # urls)) = True"
| "has_generated _ = False"

text \<open>
  The \<^verbatim>\<open>for\<close> loop from \<^verbatim>\<open>attempt\<close> on. The mocked status endpoint is a function from
  the index of the request (from 0) to its response.
\<close>

function poll_from :: "(nat \<Rightarrow> poll_response) \<Rightarrow> nat \<Rightarrow> nat \<Rightarrow> poll_result" where
  "poll_from endpoint maxAttempts attempt =
     (if attempt < maxAttempts then
        (case endpoint attempt of
           RequestFailed msg \<Rightarrow>
             \<lparr>outcome = Inl (ErrorCheckingTaskStatus (RequestError msg)),
              polls = attempt + 1, sleeps = attempt\<rparr>
         | Response status generated \<Rightarrow>
             if status = ''COMPLETED'' \<and> has_generated generated then
               \<lparr>outcome = Inr (hd (the generated)), polls = attempt + 1, sleeps = attempt\<rparr>
             else if status = ''FAILED'' then
               \<lparr>outcome = Inl (ErrorCheckingTaskStatus (TaskFailed status generated)),
                polls = attempt + 1, sleeps = attempt\<rparr>
             else poll_from endpoint maxAttempts (attempt + 1))
      else \<lparr>outcome = Inl (TimeoutAfter maxAttempts), polls = attempt, sleeps = attempt\<rparr>)"
  by pat_completeness auto
termination
  by (relation "measure (\<lambda>(endpoint, maxAttempts, attempt). maxAttempts - attempt)") auto

definition checkMysticTaskStatus :: "(nat \<Rightarrow> poll_response) \<Rightarrow> nat \<Rightarrow> poll_result" where
  "checkMysticTaskStatus endpoint maxAttempts = poll_from endpoint maxAttempts 0"

text \<open>A response after which the loop sleeps and asks again.\<close>

fun keeps_polling :: "poll_response \<Rightarrow> bool" where
  "keeps_polling (RequestFailed msg) = False"
| "keeps_polling (Response status generated) =
     (\<not> (status = ''COMPLETED'' \<and> has_generated generated) \<and> status \<noteq> ''FAILED'')"


section \<open>Chapters and book state (src/src/cli/utils/bookState.js)\<close>

datatype status = not_generated | generated | wip | accepted

text \<open>
  The image record of a chapter. A property that is absent and one that is \<^verbatim>\<open>null\<close> are
  both \<open>None\<close>. A fresh chapter has \<^verbatim>\<open>status\<close>, \<^verbatim>\<open>prompt\<close> and \<^verbatim>\<open>url\<close>; the image flow
  replaces the object by one with the other properties.
\<close>

record image =
  img_status :: status
  img_prompt :: "string option"
  img_url :: "string option"
  img_tempPath :: "string option"
  img_attempts :: "nat option"
  img_style :: "string option"
  img_preset :: "string option"
  img_timestamp :: "string option"
  img_localPath :: "string option"

record lesson_context =
  example :: string
  summary :: string

record generation_config =
  initialPrompt :: string
  personalizationPrompt :: string
  model :: string
  temperature :: real
  timestamp :: string

record book_chapter =
  ch_id :: string
  ch_topic :: string
  ch_status :: status
  ch_text :: "string option"
  ch_lessonContext :: "lesson_context option"
  ch_image :: image
  ch_generationConfig :: "generation_config option"

text \<open>
  The static lesson table \<^verbatim>\<open>BOOK_CONTENT\<close> of \<^verbatim>\<open>config/chapters.js\<close> is a file that each
  installation writes for itself, so it is a parameter of the functions that read it.
\<close>

record topic =
  topic_key :: string
  topic_title :: string
  topic_example :: string
  topic_summary :: string

record lesson =
  lesson_id :: string
  lesson_title :: string
  lesson_description :: string
  lesson_order :: int
  lesson_topics :: "topic list"

definition fresh_image :: image where
  "fresh_image = \<lparr>img_status = not_generated, img_prompt = None, img_url = None,
     img_tempPath = None, img_attempts = None, img_style = None, img_preset = None,
     img_timestamp = None, img_localPath = None\<rparr>"

text \<open>The chapter pushed for one topic of one lesson; the id is \<^verbatim>\<open>`${lesson.id}_${topic.key}`\<close>.\<close>

definition lesson_chapter :: "lesson \<Rightarrow> topic \<Rightarrow> book_chapter" where
  "lesson_chapter lesson topic =
     \<lparr>ch_id = lesson_id lesson @ ''_'' @ topic_key topic,
      ch_topic = topic_title topic,
      ch_status = not_generated,
      ch_text = None,
      ch_lessonContext = Some \<lparr>example = topic_example topic, summary = topic_summary topic\<rparr>,
      ch_image = fresh_image,
      ch_generationConfig = None\<rparr>"

text \<open>
  \<^verbatim>\<open>initializeChaptersFromLessons\<close>: the introduction, then the two nested \<^verbatim>\<open>forEach\<close>
  calls pushing one chapter per topic, then the conclusion.
\<close>

definition initializeChaptersFromLessons :: "lesson list \<Rightarrow> book_chapter list" where
  "initializeChaptersFromLessons BOOK_CONTENT =
     [\<lparr>ch_id = ''introduction'', ch_topic = ''Introduction'', ch_status = not_generated,
       ch_text = None, ch_lessonContext = None, ch_image = fresh_image,
       ch_generationConfig = None\<rparr>]
     @ concat (map (\<lambda>lesson. map (\<lambda>topic. lesson_chapter lesson topic) (lesson_topics lesson))
                BOOK_CONTENT)
     @ [\<lparr>ch_id = ''conclusion'', ch_topic = ''Conclusion'', ch_status = not_generated,
         ch_text = None, ch_lessonContext = None, ch_image = fresh_image,
         ch_generationConfig = None\<rparr>]"

record chat_config =
  chatModel :: string
  chat_temperature :: real
  top_p :: real
  frequency_penalty :: real
  presence_penalty :: real

record 'n book_state =
  title :: string
  createdAt :: string
  openAIConfig :: "chat_config option"
  storyVariables :: "'n jsval"
  chapters :: "book_chapter list"
  currentContext :: string

text \<open>
  \<^verbatim>\<open>initializeBookState\<close>. The reading of the clock, \<^verbatim>\<open>new Date().toISOString()\<close>, is the
  argument \<open>now\<close>.
\<close>

definition initializeBookState :: "lesson list \<Rightarrow> string \<Rightarrow> string \<Rightarrow> 'n book_state" where
  "initializeBookState BOOK_CONTENT now title' =
     \<lparr>title = title',
      createdAt = now,
      openAIConfig = None,
      storyVariables = JObj
        [(''characters'', JObj
           [(''protagonistName'', JStr ''''), (''protagonistAge'', JStr ''''),
            (''protagonistGender'', JStr ''''), (''friendsNames'', JArr []),
            (''siblingsNamesAges'', JArr []), (''petName'', JStr ''''), (''petType'', JStr '''')]),
         (''places'', JObj [(''cityName'', JStr ''''), (''schoolName'', JStr '''')]),
         (''familyAndEmotions'', JObj [(''parentsNames'', JArr [])])],
      chapters = initializeChaptersFromLessons BOOK_CONTENT,
      currentContext = ''''\<rparr>"

text \<open>
  The sequence that the specification names: the ids \<^verbatim>\<open><lessonId>_<topicKey>\<close> of the
  (lesson, topic) pairs, in the table's order.
\<close>

definition lesson_topic_ids :: "lesson list \<Rightarrow> string list" where
  "lesson_topic_ids BOOK_CONTENT =
     concat (map (\<lambda>lesson. map (\<lambda>topic. lesson_id lesson @ ''_'' @ topic_key topic)
                              (lesson_topics lesson)) BOOK_CONTENT)"


section \<open>Choosing the next chapter (src/src/cli/commands/manageBook.js)\<close>

text \<open>\<^verbatim>\<open>chapters.find((chapter) => chapter.status !== "accepted")\<close>; \<open>None\<close> is \<^verbatim>\<open>undefined\<close>.\<close>

definition getNextChapter :: "book_chapter list \<Rightarrow> book_chapter option" where
  "getNextChapter chs = find (\<lambda>chapter. ch_status chapter \<noteq> accepted) chs"


section \<open>Illustration prompts (module imageStyles, src/unnamed/part_003)\<close>

record image_style =
  style_name :: string
  style_prompt :: string

record preset =
  preset_name :: string
  preset_description :: string
  promptAddon :: string

text \<open>
  The two tables of the module. Text outside ASCII is given by its UTF-8 bytes. The
  presets object is the list of its entries; a property that the object only inherits
  (\<^verbatim>\<open>toString\<close>, \<^verbatim>\<open>constructor\<close>) has no \<^verbatim>\<open>promptAddon\<close> and behaves as a missing key.
\<close>

definition DEFAULT_IMAGE_STYLE_PROMPT :: "image_style list" where
  "DEFAULT_IMAGE_STYLE_PROMPT = [
     \<lparr>style_name = ''storybook'',
      style_prompt = ''Classic children's book illustration, consistent style: gentle soft lines, bright and cheerful color palette, highly expressive and endearing characters, clear and simple backgrounds focusing attention on action. Whimsical and charming feel. Inspired by modern picture books like those by Oliver Jeffers or Beatrice Alemagna. No text.''\<rparr>,
     \<lparr>style_name = ''ghibli'',
      style_prompt = ''Studio Ghibli-inspired anime style: lush, detailed natural backgrounds with painterly textures, soft cinematic lighting casting gentle glows, characters with large expressive eyes conveying deep emotion, a sense of wonder and magical atmosphere. Nostalgic and heartwarming feel. No text.''\<rparr>,
     \<lparr>style_name = ''clay'',
      style_prompt = ''Claymation stop-motion style: characters and objects appear handcrafted from modeling clay, slight imperfections like fingerprints adding realism, soft volumetric textures, vibrant colors, often simple but tactile backgrounds. Playful, friendly, and tangible feel. No text.''\<rparr>,
     \<lparr>style_name = ''pixelart'',
      style_prompt = ''Retro 8-bit pixel art style: chunky blocky design, limited but vibrant color palette, clear outlines, nostalgic feel reminiscent of classic video games. Ideal for simple scenes and characters. Cheerful and playful aesthetic. No text.''\<rparr>,
     \<lparr>style_name = ''watercolor'',
      style_prompt = ''Soft watercolor illustration style: visible light brushstrokes, beautifully blended transparent colors creating soft gradients, fluid delicate edges, sometimes with fine ink outlines for definition. Evokes warmth, nostalgia, and gentle emotions. Dreamy and ethereal quality. No text.''\<rparr>,
     \<lparr>style_name = ''flat-vector'',
      style_prompt = ''Modern flat vector illustration: clean geometric shapes, bold solid lines, bright and contemporary limited color palette, minimal gradients or textures. Friendly, stylized characters. Excellent for clear communication, educational content, or graphic narratives. No text.''\<rparr>,
     \<lparr>style_name = ''cutout'',
      style_prompt = ''Paper cut-out collage style: distinct layered shapes suggesting different paper or fabric textures, visible paper edges, subtle drop shadows creating depth. Handcrafted, tactile feel. Vibrant, often bold color choices. Inspired by artists like Eric Carle or Lois Ehlert. No text.''\<rparr>,
     \<lparr>style_name = ''chalkboard'',
      style_prompt = ''Chalkboard drawing aesthetic: illustration appears drawn with white or colored chalk on a textured dark chalkboard background. Playful, slightly smudged lines for realism, simple charming character designs. Evokes a schoolroom or cozy cafe menu feel. Whimsical and educational vibe. No text.''\<rparr>,
     \<lparr>style_name = ''colored-pencil'',
      style_prompt = ''Colored pencil drawing style: visible waxy pencil texture, soft layered colors with gentle blending, subtle cross-hatching for shading, often with fine outlines. Warm, cozy, and slightly textured feel. Ideal for realistic yet gentle animal or character illustrations. No text.''\<rparr>,
     \<lparr>style_name = ''ink-and-wash'',
      style_prompt = ''Ink and wash illustration: expressive, dynamic black ink outlines defining characters and key elements, filled with loose, fluid washes of diluted ink or watercolor. High energy, slightly messy, spontaneous feel. Inspired by Quentin Blake or E.H. Shepard. No text.''\<rparr>,
     \<lparr>style_name = ''gouache-poster'',
      style_prompt = ''Retro gouache illustration style: opaque, flat blocks of rich color, bold simplified shapes, minimal texture, often a mid-century modern aesthetic. Vibrant, graphic, and highly stylized. Inspired by artists like Mary Blair. No text.''\<rparr>,
     \<lparr>style_name = ''vintage-storybook'',
      style_prompt = ''Vintage children's book illustration style (circa 1950s-1960s): slightly desaturated or specific retro color palette (e.g., mustard yellow, teal, muted red), charmingly simple character designs with rosy cheeks, perhaps a subtle paper grain texture. Nostalgic, sweet, and innocent feel. No text.''\<rparr>,
     \<lparr>style_name = ''whimsical-doodle'',
      style_prompt = ''Whimsical doodle art style: playful and quirky characters with potentially exaggerated features or unusual proportions, loose energetic linework like pen doodles, bright optimistic colors, imaginative and unexpected compositions. Fun, lighthearted, and spontaneous energy. No text.''\<rparr>,
     \<lparr>style_name = ''linocut-print'',
      style_prompt = ''Child-friendly linocut print style: bold graphic shapes defined by carved lines, visible wood grain or carving textures, limited but strong color palette often using overlays, slightly rustic and handcrafted feel. Strong visual impact, good for folk tales. No text.''\<rparr>,
     \<lparr>style_name = ''mixed-media'',
      style_prompt = ''Mixed media illustration style: combines elements like drawing, painting (watercolor/gouache), real-world textures (scanned paper, fabric), and digital collage. Layered, textured, and visually rich. Creates a unique, eclectic, and often surprising look. No text.''\<rparr>,
     \<lparr>style_name = ''fuzzy-felt'',
      style_prompt = ''Fuzzy felt board style: simplified shapes resembling felt pieces layered on a plain background, soft fuzzy texture on shapes, bright primary colors, minimal detail. Tactile, playful, and reminiscent of childhood toys. Ideal for very young children. No text.''\<rparr>,
     \<lparr>style_name = ''photo'',
      style_prompt = ''High-resolution photo style: realistic lighting, true-to-life colors, natural shadows and depth of field. Scene looks like it was captured with a professional DSLR camera. Detailed textures and accurate proportions. No text.''\<rparr>,
     \<lparr>style_name = ''digital-art'',
      style_prompt = ''Polished digital illustration style: smooth gradients, sharp details, vibrant color palettes, often with fantasy or sci-fi elements. Clean lines and modern rendering. Ideal for expressive and stylized characters. No text.''\<rparr>,
     \<lparr>style_name = ''3d'',
      style_prompt = ''Realistic 3D rendering style: lifelike lighting and shading, accurate materials and reflections, strong sense of depth and form. High-poly models with cinematic detail. No text.''\<rparr>,
     \<lparr>style_name = ''painting'',
      style_prompt = ''Traditional painting style: visible brush strokes, rich textured surfaces, organic blending of colors. Inspired by oil or acrylic canvas techniques. Evokes an artistic, gallery-like atmosphere. No text.''\<rparr>,
     \<lparr>style_name = ''low-poly'',
      style_prompt = ''Low-poly 3D art style: simplified geometric forms, flat shading, bold color blocks, and clean triangular meshes. Stylized minimalism with retro-futuristic or game-like vibe. No text.''\<rparr>,
     \<lparr>style_name = ''pixel-art'',
      style_prompt = ''Retro pixel art style: 8-bit or 16-bit game aesthetic with blocky characters and limited color palette. Crisp edges, nostalgic atmosphere, and charming simplicity. No text.''\<rparr>,
     \<lparr>style_name = ''anime'',
      style_prompt = ''Anime illustration style: 2D hand-drawn characters with large expressive eyes, clean linework, cel shading, and dramatic lighting. Backgrounds can be painterly or graphic. Inspired by modern Japanese animation. No text.''\<rparr>,
     \<lparr>style_name = ''cyberpunk'',
      style_prompt = ''Cyberpunk aesthetic: neon lighting, futuristic cityscapes, gritty tech environments, dark atmospheric tones. Often features rain, reflections, glowing signage, and dystopian vibes. No text.''\<rparr>,
     \<lparr>style_name = ''comic'',
      style_prompt = ''Comic book style: bold outlines, dynamic poses, dramatic shading, and halftone textures. Panel-like composition and vivid color schemes. Inspired by classic superhero comics. No text.''\<rparr>,
     \<lparr>style_name = ''vintage'',
      style_prompt = ''Vintage illustration style: aged paper texture, retro color palettes (muted reds, teals, ochres), mid-20th-century design aesthetics. Evokes nostalgia and classic printed media. No text.''\<rparr>,
     \<lparr>style_name = ''cartoon'',
      style_prompt = ''Cartoon style: exaggerated facial expressions, simplified shapes, bold lines, and playful, vibrant colors. Ideal for humorous and child-friendly characters. No text.''\<rparr>,
     \<lparr>style_name = ''vector'',
      style_prompt = ''Flat vector art style: clean geometric shapes, high contrast color blocks, minimalistic design with crisp lines and clear silhouettes. Great for infographics or modern illustrations. No text.''\<rparr>,
     \<lparr>style_name = ''studio-shot'',
      style_prompt = ''Professional studio photograph style: clean background, well-lit subject, soft shadows, high contrast and crisp details. Perfect for product photography or portraiture. No text.''\<rparr>,
     \<lparr>style_name = ''dark'',
      style_prompt = ''Dark aesthetic: moody lighting, high contrast shadows, deep blacks and muted colors. Evokes drama, mystery, or introspection. Could include gothic or noir elements. No text.''\<rparr>,
     \<lparr>style_name = ''sketch'',
      style_prompt = ''Pencil or ink sketch style: rough lines, cross-hatching, visible hand-drawn construction. Often monochrome or lightly tinted. Spontaneous and expressive feel. No text.''\<rparr>,
     \<lparr>style_name = ''mockup'',
      style_prompt = ''Clean product mockup style: minimal background, perfect lighting, photorealistic rendering of objects (often floating or centered), ideal for design presentations. No text.''\<rparr>,
     \<lparr>style_name = ''2000s-pone'',
      style_prompt = ''Early 2000s mobile UI style: glossy buttons, fake 3D shadows, bright gradients, and skeuomorphic icons. Looks like an old Nokia or Sony Ericsson phone screen. Retro tech aesthetic. No text.''\<rparr>,
     \<lparr>style_name = ''70s-vibe'',
      style_prompt = ''1970s-inspired illustration style: warm earthy tones (orange, brown, yellow), groovy patterns, vintage typography aesthetics, and nostalgic retro fashion. Evokes disco, hippie, and boho vibes. No text.''\<rparr>,
     \<lparr>style_name = ''watercolor'',
      style_prompt = ''Soft watercolor illustration style: visible light brushstrokes, beautifully blended transparent colors creating soft gradients, fluid delicate edges, sometimes with fine ink outlines for definition. Evokes warmth, nostalgia, and gentle emotions. Dreamy and ethereal quality. No text.''\<rparr>,
     \<lparr>style_name = ''art-nouveau'',
      style_prompt = ''Art Nouveau style: decorative flowing lines, floral patterns, pastel colors, and organic forms. Inspired by early 20th century artists like Alphonse Mucha. Elegant, ornate, and stylized. No text.''\<rparr>,
     \<lparr>style_name = ''origami'',
      style_prompt = ''Origami paper art style: folded paper textures, visible creases and geometric shapes, minimalist color palette. Often animal or nature subjects rendered in clean, precise form. No text.''\<rparr>,
     \<lparr>style_name = ''surreal'',
      style_prompt = ''Surreal art style: dreamlike and bizarre compositions, unexpected juxtapositions, often inspired by Salvador Dal'' @ [CHR 0xC3, CHR 0xAD] @ ''. Blurred reality, fantastical elements, strange logic. No text.''\<rparr>,
     \<lparr>style_name = ''fantasy'',
      style_prompt = ''High fantasy illustration style: magical creatures, enchanted forests, glowing lights, epic settings. Inspired by classic fantasy books and RPGs. Rich detail and mythical atmosphere. No text.''\<rparr>,
     \<lparr>style_name = ''traditional-japan'',
      style_prompt = ''Traditional Japanese art style: inspired by ukiyo-e woodblock prints with flat color layers, graceful linework, nature elements like sakura and waves, elegant compositions. No text.''\<rparr>]"

definition IMAGE_STYLE_PRESETS :: "(string \<times> preset) list" where
  "IMAGE_STYLE_PRESETS = [
     (''emotionalCloseUp'',
      \<lparr>preset_name = ''Emotional Close-Up'',
       preset_description = ''Focus on facial expressions and emotions of a single character. Minimal background.'',
       promptAddon = ''Close-up on a character's face showing clear emotion, simple background.''\<rparr>),
     (''characterIntroduction'',
      \<lparr>preset_name = ''Character Introduction'',
       preset_description = ''Full-body or mid-shot of a character in their environment, showing personality or key traits.'',
       promptAddon = ''A character standing in their personal space or favorite spot, showing personality.''\<rparr>),
     (''groupInteraction'',
      \<lparr>preset_name = ''Group Interaction'',
       preset_description = ''Multiple characters interacting '' @ [CHR 0xE2, CHR 0x80, CHR 0x94] @ '' playing, talking, collaborating.'',
       promptAddon = ''Group of characters talking, playing or collaborating in a friendly setting.''\<rparr>),
     (''parentChildMoment'',
      \<lparr>preset_name = ''Parent-Child Moment'',
       preset_description = ''Tender moment between a child and an adult, often in a warm or safe setting.'',
       promptAddon = ''A child with a parent or caregiver sharing a warm moment, cozy setting.''\<rparr>),
     (''wideEstablishingShot'',
      \<lparr>preset_name = ''Wide Establishing Shot'',
       preset_description = ''Scene-wide view to introduce a new setting or location.'',
       promptAddon = ''A wide view of a school, park, or town to establish the scene.''\<rparr>),
     (''birdEyeTown'',
      \<lparr>preset_name = ''Bird's-Eye Town View'',
       preset_description = ''Overhead view of a neighborhood or town with activity and charm.'',
       promptAddon = ''Bird's-eye view of a friendly town with houses, parks, and people.''\<rparr>),
     (''insideView'',
      \<lparr>preset_name = ''Inside View'',
       preset_description = ''Interior space like a room or shop, cozy and with personal details.'',
       promptAddon = ''Interior of a room or small store, with furniture and objects arranged naturally.''\<rparr>),
     (''silentSequence'',
      \<lparr>preset_name = ''Silent Sequence'',
       preset_description = ''Action or mood moment with no text, focused on expression or gesture.'',
       promptAddon = ''A quiet moment showing only movement or feelings without speech.''\<rparr>),
     (''dynamicAction'',
      \<lparr>preset_name = ''Dynamic Action'',
       preset_description = ''Characters in expressive, energetic poses '' @ [CHR 0xE2, CHR 0x80, CHR 0x94] @ '' running, jumping, reacting.'',
       promptAddon = ''Characters mid-action with expressive poses and movement lines.''\<rparr>),
     (''followThrough'',
      \<lparr>preset_name = ''Follow Through'',
       preset_description = ''Second beat of an action '' @ [CHR 0xE2, CHR 0x80, CHR 0x94] @ '' like falling, landing, reacting. Great for humor or drama.'',
       promptAddon = ''Character reacting after a surprise or mistake, showing motion and emotion.''\<rparr>),
     (''beforeAfter'',
      \<lparr>preset_name = ''Before & After'',
       preset_description = ''Two contrasting panels or a transformation scene.'',
       promptAddon = ''Illustration showing a change '' @ [CHR 0xE2, CHR 0x80, CHR 0x94] @ '' before and after a decision, mistake, or learning.''\<rparr>),
     (''diagramConcept'',
      \<lparr>preset_name = ''Diagram Concept'',
       preset_description = ''Simple, educational infographic or schematic visual.'',
       promptAddon = ''Simple infographic showing how something works using arrows and labels.''\<rparr>),
     (''splitFrameStory'',
      \<lparr>preset_name = ''Split Frame Story'',
       preset_description = ''Comic-style sequence split into panels showing progression.'',
       promptAddon = ''A panel sequence telling a mini story or showing a step-by-step process.''\<rparr>),
     (''comparisonScene'',
      \<lparr>preset_name = ''Comparison Scene'',
       preset_description = ''Visual comparison of two options or outcomes side-by-side.'',
       promptAddon = ''Two-part illustration comparing different choices or paths.''\<rparr>),
     (''metaphorVisual'',
      \<lparr>preset_name = ''Metaphor Visual'',
       preset_description = ''Symbolic representation of an abstract idea.'',
       promptAddon = ''A metaphorical visual, such as money growing like a plant or effort shown as a mountain.''\<rparr>),
     (''magicalTouch'',
      \<lparr>preset_name = ''Magical Touch'',
       preset_description = ''Sparkles, glows, or whimsical elements to give fantasy feeling.'',
       promptAddon = ''Add glowing sparkles or floating elements to give a sense of magic.''\<rparr>),
     (''nightScene'',
      \<lparr>preset_name = ''Night Scene'',
       preset_description = ''Dark palette with light sources like lamps or moon. Calming or thoughtful.'',
       promptAddon = ''A nighttime setting with cool tones, stars or soft lighting.''\<rparr>),
     (''celebrationScene'',
      \<lparr>preset_name = ''Celebration Scene'',
       preset_description = ''Joyful event with decorations, smiles, and energy.'',
       promptAddon = ''Characters celebrating with balloons, cake, music, or fireworks.''\<rparr>),
     (''transitionShot'',
      \<lparr>preset_name = ''Transition Shot'',
       preset_description = ''Scene of movement or time passing '' @ [CHR 0xE2, CHR 0x80, CHR 0x94] @ '' walking paths, trains, sun setting.'',
       promptAddon = ''Illustration showing the passage of time or travel, like sunset or journey in progress.''\<rparr>)]"

text \<open>
  \<^verbatim>\<open>x || y\<close> on strings, where \<open>None\<close> is the \<^verbatim>\<open>undefined\<close> of an optional chain
  \<^verbatim>\<open>?.\<close>: the right operand is taken when the left one is \<^verbatim>\<open>undefined\<close> or empty.
\<close>

fun js_or :: "string option \<Rightarrow> string \<Rightarrow> string" where
  "js_or None y = y"
| "js_or (Some x) y = (if x \<noteq> [] then x else y)"

record illustration_options =
  description :: "string option"
  style :: "string option"
  preset :: "string option"

text \<open>
  The two constants computed by \<^verbatim>\<open>getIllustrationPrompt\<close> before the template string:
  \<^verbatim>\<open>DEFAULT_IMAGE_STYLE_PROMPT.find((s) => s.name === style)?.prompt || DEFAULT_IMAGE_STYLE_PROMPT[0].prompt\<close>
  and \<^verbatim>\<open>IMAGE_STYLE_PRESETS[preset]?.promptAddon || ""\<close>.
\<close>

definition baseStyle :: "string \<Rightarrow> string" where
  "baseStyle style' =
     js_or (map_option style_prompt (find (\<lambda>s. style_name s = style') DEFAULT_IMAGE_STYLE_PROMPT))
           (style_prompt (DEFAULT_IMAGE_STYLE_PROMPT ! 0))"

definition presetAddon :: "string \<Rightarrow> string" where
  "presetAddon preset' = js_or (map_option promptAddon (map_of IMAGE_STYLE_PRESETS preset')) []"

text \<open>
  \<^verbatim>\<open>getIllustrationPrompt\<close>. A property left out of the options is \<open>None\<close>; the two
  defaults of the parameter list apply to it. The error is the message of the exception.
\<close>

definition getIllustrationPrompt :: "illustration_options \<Rightarrow> string + string" where
  "getIllustrationPrompt options =
     (let style' = (case style options of None \<Rightarrow> ''storybook'' | Some s \<Rightarrow> s);
          preset' = (case preset options of None \<Rightarrow> ''emotionalCloseUp'' | Some p \<Rightarrow> p)
      in case description options of
           None \<Rightarrow> Inl ''Description is required for illustration prompt''
         | Some description' \<Rightarrow>
             if description' = [] then Inl ''Description is required for illustration prompt''
             else Inr (baseStyle style' @ '' '' @ presetAddon preset' @ '' Scene: '' @ description'))"


section \<open>The chapter workflow (module generateChapter in src/src/cli/commands/configureBook.js, and manageBook.js)\<close>

text \<open>
  The workflow talks to the user through menus and to the chat and image services. What
  they answer is given as a script. Each function below takes the script of the dialogue
  it conducts: the list of the answers it will receive, in order. The answers to a
  sub-dialogue are attached to the choice that opens it. When a script is used up, the
  program is waiting for an input that never comes.
\<close>

datatype 'a outcome = Returned 'a | Waiting

type_synonym error = string

text \<open>
  The menu of \<^verbatim>\<open>reviewPrompt\<close>; \<^verbatim>\<open>ModifyPrompt\<close> carries the text that \<^verbatim>\<open>editPrompt\<close>
  returns.
\<close>

datatype prompt_review = UsePrompt | ModifyPrompt string | CancelGeneration

text \<open>The menu shown after an image has been produced.\<close>

datatype image_action = AcceptImage | RegenerateImage | ModifyImagePrompt | SkipImage

text \<open>
  What the dialogue of one call of \<^verbatim>\<open>handleImageGeneration\<close> settles before the image
  exists: the style and preset chosen, the final prompt (used as built, or edited), the
  path returned by \<^verbatim>\<open>generateImage\<close> and the clock reading.
\<close>

record produced_image =
  chosen_style :: string
  chosen_preset :: string
  finalPrompt :: string
  outputPath :: string
  image_clock :: string

text \<open>
  One call of \<^verbatim>\<open>handleImageGeneration\<close>: an exception of the scene selection or of the
  image provider (caught, the function returns \<^verbatim>\<open>false\<close>); the choice
  \<^verbatim>\<open>Skip image generation\<close> (the function returns \<^verbatim>\<open>null\<close>); or an image and the action
  chosen for it.
\<close>

datatype image_round =
    ImageFailed error
  | ImageSkipped
  | ImageProduced produced_image image_action

text \<open>The menu of \<^verbatim>\<open>reviewContent\<close>; accepting opens the image dialogue.\<close>

datatype content_action =
    AcceptContent "image_round list"
  | RegenerateContent
  | ModifyContentPrompt
  | MarkContentWip

text \<open>
  One iteration of the \<^verbatim>\<open>while (true)\<close> loop of \<^verbatim>\<open>generateChapterContent\<close>: the answer
  to the prompt review, the outcomes of the two calls of \<^verbatim>\<open>generateChapter\<close> (the
  exception that the chat completion raised, or the trimmed text), the clock reading and
  the answer to the content review.
\<close>

record generation_round =
  prompt_review :: prompt_review
  initial_completion :: "error + string"
  personalization_completion :: "error + string"
  generation_clock :: string
  content_review :: content_action

text \<open>The chapter menu of \<^verbatim>\<open>handleChapter\<close>.\<close>

datatype menu_choice =
    Generate "generation_round list"
  | ReviewCurrentContent
  | MarkWip
  | MarkAccepted
  | Back

text \<open>
  What the workflow reads and never writes: the book directory, \<^verbatim>\<open>path.join\<close> of the
  platform (a library function, taken as given), the chat settings of the book state, and
  the four prompt builders of \<^verbatim>\<open>promptBuilder.js\<close> and
  \<^verbatim>\<open>promptBuilderExtras.js\<close> applied to the story variables of the book (pure string
  templates, taken as given).
\<close>

record env =
  bookPath :: string
  path_join :: "string list \<Rightarrow> string"
  env_chatModel :: string
  env_temperature :: real
  buildIntroductionPrompt :: string
  buildChapterPrompt :: "string \<Rightarrow> string list \<Rightarrow> string"
  personalizeIntroductionContent :: "string \<Rightarrow> string"
  personalizeChapterContent :: "string \<Rightarrow> string"

text \<open>
  What the workflow writes: the chapter object in memory, the copy of it in
  \<^verbatim>\<open>book-state.json\<close> as of the last save, and the text of \<^verbatim>\<open>content.md\<close>. The other
  chapters of the book are not touched by the functions below. \<open>status_writes\<close> is a
  log kept for the proofs: one pair (old status, new status) per assignment to
  \<^verbatim>\<open>chapter.status\<close>, in order. Writing a file is taken to succeed.
\<close>

record session =
  mem_chapter :: book_chapter
  saved_chapter :: book_chapter
  content_md :: string
  status_writes :: "(status \<times> status) list"

text \<open>\<^verbatim>\<open>chapter.status = new\<close>\<close>

definition set_status :: "status \<Rightarrow> session \<Rightarrow> session" where
  "set_status new s =
     s\<lparr>mem_chapter := (mem_chapter s)\<lparr>ch_status := new\<rparr>,
       status_writes := status_writes s @ [(ch_status (mem_chapter s), new)]\<rparr>"

text \<open>\<^verbatim>\<open>saveBookState\<close> writes the whole state in memory over the file.\<close>

definition saveBookState :: "session \<Rightarrow> session" where
  "saveBookState s = s\<lparr>saved_chapter := mem_chapter s\<rparr>"

text \<open>\<^verbatim>\<open>fs.appendFile(contentPath, data)\<close>\<close>

definition appendFile_content :: "string \<Rightarrow> session \<Rightarrow> session" where
  "appendFile_content data s = s\<lparr>content_md := content_md s @ data\<rparr>"

text \<open>The section \<^verbatim>\<open>`\n\n## ${chapter.topic}\n\n${personalizedContent}\n`\<close>.\<close>

definition content_section :: "string \<Rightarrow> string \<Rightarrow> string" where
  "content_section topic' personalizedContent =
     [CHR 0x0A, CHR 0x0A] @ ''## '' @ topic' @ [CHR 0x0A, CHR 0x0A] @ personalizedContent @ [CHR 0x0A]"

fun reviewPrompt :: "string \<Rightarrow> prompt_review \<Rightarrow> string option" where
  "reviewPrompt prompt UsePrompt = Some prompt"
| "reviewPrompt prompt (ModifyPrompt edited) = Some edited"
| "reviewPrompt prompt CancelGeneration = None"

text \<open>
  \<^verbatim>\<open>handleImageGeneration\<close>. The whole body is inside \<^verbatim>\<open>try\<close>, so the function never
  throws. It returns \<^verbatim>\<open>true\<close>, \<^verbatim>\<open>false\<close> or \<^verbatim>\<open>null\<close> (\<open>None\<close>). On regenerate and
  on modify it calls itself.
\<close>

fun handleImageGeneration :: "env \<Rightarrow> image_round list \<Rightarrow> session \<Rightarrow> bool option outcome \<times> session" where
  "handleImageGeneration env [] s = (Waiting, s)"
| "handleImageGeneration env (ImageFailed e # rounds) s = (Returned (Some False), s)"
| "handleImageGeneration env (ImageSkipped # rounds) s = (Returned None, s)"
| "handleImageGeneration env (ImageProduced img imageAction # rounds) s =
     (let attemptNumber = (case img_attempts (ch_image (mem_chapter s)) of None \<Rightarrow> 0 | Some n \<Rightarrow> n) + 1;
          s1 = s\<lparr>mem_chapter := (mem_chapter s)\<lparr>ch_image :=
                 \<lparr>img_status = generated, img_prompt = Some (finalPrompt img), img_url = None,
                  img_tempPath = Some (outputPath img), img_attempts = Some attemptNumber,
                  img_style = Some (chosen_style img), img_preset = Some (chosen_preset img),
                  img_timestamp = Some (image_clock img), img_localPath = None\<rparr>\<rparr>\<rparr>;
          s2 = saveBookState s1
      in case imageAction of
           AcceptImage \<Rightarrow>
             (let imagesDir = path_join env [bookPath env, ''images''];
                  finalFileName = ''chapter_'' @ ch_id (mem_chapter s2) @ ''_image.png'';
                  finalPath = path_join env [imagesDir, finalFileName];
                  s3 = s2\<lparr>mem_chapter := (mem_chapter s2)\<lparr>ch_image :=
                         (ch_image (mem_chapter s2))\<lparr>img_status := accepted,
                                                     img_localPath := Some finalPath\<rparr>\<rparr>\<rparr>
              in (Returned (Some True), saveBookState s3))
         | SkipImage \<Rightarrow>
             (let s3 = s2\<lparr>mem_chapter := (mem_chapter s2)\<lparr>ch_image :=
                         (ch_image (mem_chapter s2))\<lparr>img_status := wip\<rparr>\<rparr>\<rparr>
              in (Returned (Some False), saveBookState s3))
         | RegenerateImage \<Rightarrow> handleImageGeneration env rounds s2
         | ModifyImagePrompt \<Rightarrow> handleImageGeneration env rounds s2)"

text \<open>
  The \<^verbatim>\<open>while (true)\<close> loop of \<^verbatim>\<open>generateChapterContent\<close>, with the \<^verbatim>\<open>catch\<close> that
  surrounds it: an exception of either call of \<^verbatim>\<open>generateChapter\<close> ends the function
  with \<^verbatim>\<open>false\<close>. \<open>prompt\<close> is the loop variable of that name.
\<close>

fun generation_loop ::
  "env \<Rightarrow> bool \<Rightarrow> string \<Rightarrow> generation_round list \<Rightarrow> session \<Rightarrow> bool outcome \<times> session" where
  "generation_loop env isIntroduction prompt [] s = (Waiting, s)"
| "generation_loop env isIntroduction prompt (r # rounds) s =
     (case reviewPrompt prompt (prompt_review r) of
        None \<Rightarrow> (Returned False, s)
      | Some prompt' \<Rightarrow>
          if prompt' = [] then (Returned False, s)
          else
            (case initial_completion r of
               Inl e \<Rightarrow> (Returned False, s)
             | Inr initialContent \<Rightarrow>
                 (let personalizationPrompt' =
                        (if isIntroduction then personalizeIntroductionContent env initialContent
                         else personalizeChapterContent env initialContent)
                  in case personalization_completion r of
                       Inl e \<Rightarrow> (Returned False, s)
                     | Inr personalizedContent \<Rightarrow>
                         (let s1 = s\<lparr>mem_chapter := (mem_chapter s)\<lparr>ch_text := Some personalizedContent\<rparr>\<rparr>;
                              s2 = set_status generated s1;
                              s3 = s2\<lparr>mem_chapter := (mem_chapter s2)\<lparr>ch_generationConfig := Some
                                     \<lparr>initialPrompt = prompt',
                                      personalizationPrompt = personalizationPrompt',
                                      model = env_chatModel env,
                                      temperature = env_temperature env,
                                      timestamp = generation_clock r\<rparr>\<rparr>\<rparr>;
                              s4 = saveBookState s3
                          in case content_review r of
                               AcceptContent imageRounds \<Rightarrow>
                                 (let s5 = set_status accepted s4;
                                      s6 = appendFile_content
                                             (content_section (ch_topic (mem_chapter s5)) personalizedContent) s5;
                                      s7 = saveBookState s6
                                  in case handleImageGeneration env imageRounds s7 of
                                       (Waiting, s8) \<Rightarrow> (Waiting, s8)
                                     | (Returned b, s8) \<Rightarrow> (Returned True, s8))
                             | RegenerateContent \<Rightarrow>
                                 generation_loop env isIntroduction prompt' rounds
                                   (saveBookState (set_status wip s4))
                             | ModifyContentPrompt \<Rightarrow>
                                 generation_loop env isIntroduction prompt' rounds
                                   (saveBookState (set_status wip s4))
                             | MarkContentWip \<Rightarrow>
                                 (Returned False, saveBookState (set_status wip s4))))))"

text \<open>\<^verbatim>\<open>generateChapterContent\<close>: the initial prompt is built, then the loop runs.\<close>

definition generateChapterContent :: "env \<Rightarrow> generation_round list \<Rightarrow> session \<Rightarrow> bool outcome \<times> session" where
  "generateChapterContent env rounds s =
     (let isIntroduction = (ch_id (mem_chapter s) = ''introduction'');
          prompt = (if isIntroduction then buildIntroductionPrompt env
                    else buildChapterPrompt env (ch_topic (mem_chapter s))
                           (case ch_lessonContext (mem_chapter s) of
                              Some lessonContext \<Rightarrow> [summary lessonContext]
                            | None \<Rightarrow> []))
      in generation_loop env isIntroduction prompt rounds s)"

text \<open>
  The entries of the chapter menu that are shown disabled: review, mark as work in
  progress and mark as accepted, while the status is \<^verbatim>\<open>not_generated\<close>. A disabled
  entry cannot be chosen.
\<close>

fun disabled :: "menu_choice \<Rightarrow> book_chapter \<Rightarrow> bool" where
  "disabled ReviewCurrentContent c = (ch_status c = not_generated)"
| "disabled MarkWip c = (ch_status c = not_generated)"
| "disabled MarkAccepted c = (ch_status c = not_generated)"
| "disabled choice c = False"

text \<open>
  \<^verbatim>\<open>handleChapter\<close>. After generate, review and mark as work in progress the function
  calls itself and the menu is shown again; mark as accepted and back return. A choice of
  the script that is disabled in the current menu is passed over.
\<close>

fun handleChapter :: "env \<Rightarrow> menu_choice list \<Rightarrow> session \<Rightarrow> unit outcome \<times> session" where
  "handleChapter env [] s = (Waiting, s)"
| "handleChapter env (action # script) s =
     (if disabled action (mem_chapter s) then handleChapter env script s
      else case action of
             Generate rounds \<Rightarrow>
               (case generateChapterContent env rounds s of
                  (Waiting, s') \<Rightarrow> (Waiting, s')
                | (Returned b, s') \<Rightarrow> handleChapter env script s')
           | ReviewCurrentContent \<Rightarrow> handleChapter env script s
           | MarkWip \<Rightarrow> handleChapter env script (saveBookState (set_status wip s))
           | MarkAccepted \<Rightarrow> (Returned (), saveBookState (set_status accepted s))
           | Back \<Rightarrow> (Returned (), s))"

text \<open>No assignment of the log sets \<^verbatim>\<open>accepted\<close> over \<^verbatim>\<open>not_generated\<close>.\<close>

definition accepted_after_content :: "(status \<times> status) list \<Rightarrow> bool" where
  "accepted_after_content writes =
     list_all (\<lambda>(old, new). new = accepted \<longrightarrow> old \<noteq> not_generated) writes"


section \<open>Sample inputs\<close>

text \<open>
  A book directory with its settings, and a fresh chapter of a lesson, saved as it is. The
  sample \<open>path_join\<close> puts a slash between the parts, which is what \<^verbatim>\<open>path.join\<close> does on
  parts that need no normalisation.
\<close>

definition sample_env :: env where
  "sample_env =
     \<lparr>bookPath = ''books/my-book'',
      path_join = (\<lambda>parts. case parts of [] \<Rightarrow> ''.''
                    | part # rest \<Rightarrow> foldl (\<lambda>joined next. joined @ ''/'' @ next) part rest),
      env_chatModel = ''gpt-4'',
      env_temperature = 7 / 10,
      buildIntroductionPrompt = ''Please write an introduction'',
      buildChapterPrompt = (\<lambda>topic' subtopics. ''Please write an educational chapter about '' @ topic'),
      personalizeIntroductionContent = (\<lambda>content. ''Please review and adapt the following text: '' @ content),
      personalizeChapterContent = (\<lambda>content. ''Please review and adapt the following text: '' @ content)\<rparr>"

definition sample_chapter :: book_chapter where
  "sample_chapter =
     lesson_chapter
       \<lparr>lesson_id = ''basicConcepts'', lesson_title = ''Basic concepts'',
        lesson_description = ''First steps'', lesson_order = 1, lesson_topics = []\<rparr>
       \<lparr>topic_key = ''money'', topic_title = ''What money is'',
        topic_example = ''Buying bread'', topic_summary = ''Money is a means of exchange''\<rparr>"

definition sample_session :: session where
  "sample_session =
     \<lparr>mem_chapter = sample_chapter, saved_chapter = sample_chapter,
      content_md = [], status_writes = []\<rparr>"

text \<open>
  Three iterations of the generation loop: one whose text the user sends back for
  regeneration, one that the user accepts (skipping the image), and one whose chat
  completion fails.
\<close>

definition round_regenerate :: generation_round where
  "round_regenerate =
     \<lparr>prompt_review = UsePrompt,
      initial_completion = Inr ''A first draft'',
      personalization_completion = Inr ''A first draft about Luna'',
      generation_clock = ''2025-01-01T10:00:00.000Z'',
      content_review = RegenerateContent\<rparr>"

definition round_accept :: generation_round where
  "round_accept =
     \<lparr>prompt_review = UsePrompt,
      initial_completion = Inr ''A second draft'',
      personalization_completion = Inr ''A second draft about Luna'',
      generation_clock = ''2025-01-01T10:05:00.000Z'',
      content_review = AcceptContent [ImageSkipped]\<rparr>"

definition round_failing :: generation_round where
  "round_failing =
     \<lparr>prompt_review = UsePrompt,
      initial_completion = Inr ''A third draft'',
      personalization_completion = Inl ''429 Too Many Requests'',
      generation_clock = ''2025-01-01T10:10:00.000Z'',
      content_review = AcceptContent []\<rparr>"


chapter \<open>Properties\<close>

section \<open>Context pruning\<close>

lemma keep_not_empty: "keep_clean_value v \<Longrightarrow> \<not> is_empty_value v"
  by (cases v) (auto simp: keep_clean_value_def)

lemma set_property_all:
  "list_all (\<lambda>(k, v). P v) acc \<Longrightarrow> P v \<Longrightarrow> list_all (\<lambda>(k, v). P v) (set_property acc key v)"
  by (induction acc key v rule: set_property.induct) auto

lemma foldl_invariant:
  "I acc \<Longrightarrow> (\<And>a x. x \<in> set xs \<Longrightarrow> I a \<Longrightarrow> I (g a x)) \<Longrightarrow> I (foldl g acc xs)"
  by (induction xs arbitrary: acc) auto

text \<open>
  Claim C6. For every story-variable tree, the pruned tree that is serialised into the
  personalization prompt contains no object key, at any nesting depth, whose value is the
  empty string, the empty array or the empty object.
\<close>

theorem prune_no_empty_keys: "no_empty_keys (cleanObject x)"
proof (induction x rule: cleanObject.induct)
  case (1 obj)
  then show ?case by (auto simp: Let_def list_all_iff)
next
  case (2 obj)
  let ?ok = "list_all (\<lambda>(k, v). \<not> is_empty_value v \<and> no_empty_keys v)"
  have "?ok (foldl (\<lambda>acc (key, v). let cleanValue = cleanObject v
                     in if keep_clean_value cleanValue then set_property acc key cleanValue else acc)
              [] obj)"
  proof (rule foldl_invariant[where I = ?ok])
    show "?ok []" by simp
  next
    fix a :: "(string \<times> 'a jsval) list" and x
    assume x: "x \<in> set obj" and a: "?ok a"
    obtain k v where e: "x = (k, v)" by (cases x)
    have "no_empty_keys (cleanObject v)" using 2 x e by simp
    then show "?ok ((\<lambda>acc (key, v). let cleanValue = cleanObject v
                     in if keep_clean_value cleanValue then set_property acc key cleanValue else acc) a x)"
      using a e set_property_all[of "\<lambda>v. \<not> is_empty_value v \<and> no_empty_keys v" a "cleanObject v" k]
      by (simp add: Let_def keep_not_empty)
  qed
  then show ?case by (simp add: Let_def)
qed simp_all

theorem prune_no_empty_keys_witness:
  "cleanObject (JObj [(''characters'',
        JObj [(''protagonistName'', JStr ''Luna''), (''petName'', JStr ''''),
              (''friendsNames'', JArr []), (''protagonistAge'', JNum (8::int))]),
      (''places'', JObj [(''cityName'', JStr '''')])])
   = JObj [(''characters'',
        JObj [(''protagonistName'', JStr ''Luna''), (''protagonistAge'', JNum 8)])]
   \<and> no_empty_keys (cleanObject (JObj [(''characters'',
        JObj [(''protagonistName'', JStr ''Luna''), (''petName'', JStr ''''),
              (''friendsNames'', JArr []), (''protagonistAge'', JNum (8::int))]),
      (''places'', JObj [(''cityName'', JStr '''')])]))"
  using prune_no_empty_keys [of "JObj [(''characters'',
        JObj [(''protagonistName'', JStr ''Luna''), (''petName'', JStr ''''),
              (''friendsNames'', JArr []), (''protagonistAge'', JNum (8::int))]),
      (''places'', JObj [(''cityName'', JStr '''')])]"]
  by (simp add: keep_clean_value_def)

text \<open>
  Claim C2. Pruning is meant to be idempotent. On the tree
  \<^verbatim>\<open>{characters: {siblingsNamesAges: [[]]}}\<close> it is not: the inner empty array is cleaned
  to \<^verbatim>\<open>undefined\<close> after the filter for \<^verbatim>\<open>null\<close> elements has run, so the first pass
  keeps \<^verbatim>\<open>[undefined]\<close>, and the second pass removes it and collapses the whole tree.
\<close>

theorem prune_twice_differs:
  "cleanObject (JObj [(''characters'', JObj [(''siblingsNamesAges'', JArr [JArr []])])] :: int jsval)
     = JObj [(''characters'', JObj [(''siblingsNamesAges'', JArr [JUndefined])])]
   \<and> cleanObject (cleanObject
        (JObj [(''characters'', JObj [(''siblingsNamesAges'', JArr [JArr []])])] :: int jsval))
     = JUndefined"
  by (simp add: keep_clean_value_def)

text \<open>
  The elements that the array branch cleans to \<^verbatim>\<open>undefined\<close> and keeps are the only
  obstacle: whenever the pruned tree holds no undefined array element, a second pass
  returns it unchanged.
\<close>

lemma set_property_fresh: "key \<notin> fst ` set acc \<Longrightarrow> set_property acc key v = acc @ [(key, v)]"
  by (induction acc key v rule: set_property.induct) auto

lemma foldl_keep_all:
  assumes "distinct (map fst es)" and "fst ` set acc \<inter> fst ` set es = {}"
    and "\<And>k v. (k, v) \<in> set es \<Longrightarrow> f v = v \<and> keep_clean_value v"
  shows "foldl (\<lambda>acc (key, v). let cleanValue = f v
           in if keep_clean_value cleanValue then set_property acc key cleanValue else acc) acc es
         = acc @ es"
  using assms
proof (induction es arbitrary: acc)
  case Nil
  then show ?case by simp
next
  case (Cons e es)
  obtain k v where e: "e = (k, v)" by (cases e)
  have kv: "f v = v" "keep_clean_value v" using Cons.prems(3)[of k v] e by simp_all
  have fresh: "k \<notin> fst ` set acc" using Cons.prems(2) e by auto
  have step: "set_property acc k v = acc @ [(k, v)]" using fresh by (rule set_property_fresh)
  have "foldl (\<lambda>acc (key, v). let cleanValue = f v
           in if keep_clean_value cleanValue then set_property acc key cleanValue else acc)
          (acc @ [(k, v)]) es = (acc @ [(k, v)]) @ es"
  proof (rule Cons.IH)
    show "distinct (map fst es)" using Cons.prems(1) by simp
    show "fst ` set (acc @ [(k, v)]) \<inter> fst ` set es = {}"
      using Cons.prems(1,2) e by auto
    show "\<And>k v. (k, v) \<in> set es \<Longrightarrow> f v = v \<and> keep_clean_value v"
      using Cons.prems(3) by (meson list.set_intros(2))
  qed
  then show ?case using e kv step by (simp add: Let_def)
qed

lemma settled_fixed: "settled y \<Longrightarrow> cleanObject y = y"
proof (induction y rule: cleanObject.induct)
  case (1 obj)
  then have all: "list_all (\<lambda>x. x \<noteq> JNull \<and> x \<noteq> JUndefined \<and> settled x) obj" and ne: "obj \<noteq> []"
    by simp_all
  then have f: "filter (\<lambda>item. item \<noteq> JNull \<and> item \<noteq> JUndefined) obj = obj"
    by (simp add: list_all_iff)
  have "map cleanObject obj = obj"
    using 1(1) all f by (intro map_idI) (auto simp: list_all_iff)
  then show ?case using f ne by (simp add: Let_def)
next
  case (2 obj)
  then have ne: "obj \<noteq> []" and d: "distinct (map fst obj)"
    and all: "list_all (\<lambda>(k, v). keep_clean_value v \<and> settled v) obj"
    by simp_all
  have "foldl (\<lambda>acc (key, v). let cleanValue = cleanObject v
           in if keep_clean_value cleanValue then set_property acc key cleanValue else acc) [] obj
         = [] @ obj"
  proof (rule foldl_keep_all)
    show "distinct (map fst obj)" by (rule d)
    show "fst ` set [] \<inter> fst ` set obj = {}" by simp
    fix k v assume kv: "(k, v) \<in> set obj"
    then have "keep_clean_value v" "settled v" using all by (auto simp: list_all_iff)
    then show "cleanObject v = v \<and> keep_clean_value v" using 2(1) kv by simp
  qed
  then show ?case using ne by (simp add: Let_def)
qed simp_all

lemma cleanObject_not_null: "cleanObject x = JNull \<Longrightarrow> x = JNull"
  by (cases x) (auto simp: Let_def split: if_splits)

lemma set_property_keys: "fst ` set (set_property acc key v) = insert key (fst ` set acc)"
  by (induction acc key v rule: set_property.induct) auto

lemma set_property_distinct: "distinct (map fst acc) \<Longrightarrow> distinct (map fst (set_property acc key v))"
  by (induction acc key v rule: set_property.induct) (auto simp: set_property_keys)

lemma set_property_values:
  "(k, c) \<in> set (set_property acc key v) \<Longrightarrow> (k, c) \<in> set acc \<or> c = v"
  by (induction acc key v rule: set_property.induct) (auto split: if_splits)

lemma cleaned_entries_step:
  assumes "cleaned_entries obj acc" and "(k, v) \<in> set obj"
  shows "cleaned_entries obj
           (if keep_clean_value (cleanObject v) then set_property acc k (cleanObject v) else acc)"
proof (cases "keep_clean_value (cleanObject v)")
  case True
  have d: "distinct (map fst (set_property acc k (cleanObject v)))"
    using assms(1) by (simp add: cleaned_entries_def set_property_distinct)
  have "keep_clean_value c \<and> (\<exists>k' v. (k', v) \<in> set obj \<and> c = cleanObject v)"
    if "(k2, c) \<in> set (set_property acc k (cleanObject v))" for k2 c
  proof -
    from set_property_values[OF that] consider "(k2, c) \<in> set acc" | "c = cleanObject v"
      by blast
    then show ?thesis
    proof cases
      case 1
      then show ?thesis using assms(1) unfolding cleaned_entries_def by blast
    next
      case 2
      then show ?thesis using True assms(2) by blast
    qed
  qed
  with d have "cleaned_entries obj (set_property acc k (cleanObject v))"
    unfolding cleaned_entries_def by blast
  with True show ?thesis by simp
next
  case False
  then show ?thesis using assms(1) by simp
qed

lemma cleaned_entries_foldl:
  "cleaned_entries obj acc \<Longrightarrow> set es \<subseteq> set obj \<Longrightarrow>
   cleaned_entries obj
     (foldl (\<lambda>acc (key, v). let cleanValue = cleanObject v
           in if keep_clean_value cleanValue then set_property acc key cleanValue else acc) acc es)"
proof (induction es arbitrary: acc)
  case Nil
  then show ?case by simp
next
  case (Cons e es)
  obtain k v where e: "e = (k, v)" by (cases e)
  then have "(k, v) \<in> set obj" using Cons.prems(2) by simp
  then have "cleaned_entries obj
           (if keep_clean_value (cleanObject v) then set_property acc k (cleanObject v) else acc)"
    using Cons.prems(1) by (intro cleaned_entries_step)
  then show ?case using Cons.IH Cons.prems(2) e by (simp add: Let_def)
qed


lemma cleaned_settled_object:
  assumes IH: "\<And>k v. (k, v) \<in> set obj \<Longrightarrow> no_undefined_elements (cleanObject v) \<Longrightarrow> settled (cleanObject v)"
    and prem: "no_undefined_elements (cleanObject (JObj obj))"
  shows "settled (cleanObject (JObj obj))"
proof -
  define cleaned where "cleaned = foldl (\<lambda>acc (key, v). let cleanValue = cleanObject v
           in if keep_clean_value cleanValue then set_property acc key cleanValue else acc) [] obj"
  have inv: "cleaned_entries obj cleaned"
    unfolding cleaned_def by (rule cleaned_entries_foldl) (simp_all add: cleaned_entries_def)
  have co: "cleanObject (JObj obj) = (if cleaned \<noteq> [] then JObj cleaned else JUndefined)"
    by (simp add: cleaned_def Let_def)
  show ?thesis
  proof (cases "cleaned = []")
    case True
    then show ?thesis unfolding co by simp
  next
    case False
    then have nu: "list_all (\<lambda>(k, v). no_undefined_elements v) cleaned"
      using prem unfolding co by simp
    have "keep_clean_value c \<and> settled c" if "(k, c) \<in> set cleaned" for k c
    proof -
      from inv that obtain k' v where v: "keep_clean_value c" "(k', v) \<in> set obj" "c = cleanObject v"
        unfolding cleaned_entries_def by blast
      have "no_undefined_elements c" using nu that by (auto simp: list_all_iff)
      then have "settled (cleanObject v)" using IH[of k' v] v by simp
      with v show ?thesis by simp
    qed
    then have "list_all (\<lambda>(k, v). keep_clean_value v \<and> settled v) cleaned"
      unfolding list_all_iff by blast
    moreover have "distinct (map fst cleaned)" using inv unfolding cleaned_entries_def by blast
    ultimately have "settled (JObj cleaned)" using False by simp
    then show ?thesis using False unfolding co by simp
  qed
qed

lemma cleaned_settled_array:
  assumes IH: "\<And>e. e \<in> set (filter (\<lambda>item. item \<noteq> JNull \<and> item \<noteq> JUndefined) obj) \<Longrightarrow>
      no_undefined_elements (cleanObject e) \<Longrightarrow> settled (cleanObject e)"
    and prem: "no_undefined_elements (cleanObject (JArr obj))"
  shows "settled (cleanObject (JArr obj))"
proof -
  define kept where "kept = filter (\<lambda>item. item \<noteq> JNull \<and> item \<noteq> JUndefined) obj"
  have co: "cleanObject (JArr obj) = (if kept \<noteq> [] then JArr (map cleanObject kept) else JUndefined)"
    by (simp add: kept_def Let_def)
  show ?thesis
  proof (cases "kept = []")
    case True
    then show ?thesis unfolding co by simp
  next
    case False
    then have nu: "list_all (\<lambda>x. x \<noteq> JUndefined \<and> no_undefined_elements x) (map cleanObject kept)"
      using prem unfolding co by simp
    have "y \<noteq> JNull \<and> y \<noteq> JUndefined \<and> settled y" if "y \<in> set (map cleanObject kept)" for y
    proof -
      from that obtain e where e: "e \<in> set kept" "y = cleanObject e" by auto
      have y: "y \<noteq> JUndefined" "no_undefined_elements y"
        using nu that by (auto simp: list_all_iff)
      have "e \<noteq> JNull" using e(1) by (simp add: kept_def)
      then have "y \<noteq> JNull" using e(2) cleanObject_not_null[of e] by auto
      moreover have "settled y" using IH[of e] e y(2) by (simp add: kept_def)
      ultimately show ?thesis using y(1) by simp
    qed
    then have "settled (JArr (map cleanObject kept))"
      using False by (simp add: list_all_iff)
    then show ?thesis using False unfolding co by simp
  qed
qed

lemma cleaned_settled: "no_undefined_elements (cleanObject x) \<Longrightarrow> settled (cleanObject x)"
proof (induction x rule: cleanObject.induct)
  case (1 obj)
  show ?case
  proof (rule cleaned_settled_array)
    show "no_undefined_elements (cleanObject (JArr obj))" by (rule 1(2))
    fix e assume "e \<in> set (filter (\<lambda>item. item \<noteq> JNull \<and> item \<noteq> JUndefined) obj)"
      and "no_undefined_elements (cleanObject e)"
    then show "settled (cleanObject e)" by (rule 1(1))
  qed
next
  case (2 obj)
  show ?case
  proof (rule cleaned_settled_object)
    show "no_undefined_elements (cleanObject (JObj obj))" by (rule 2(2))
    fix k v assume "(k, v) \<in> set obj" and "no_undefined_elements (cleanObject v)"
    then show "settled (cleanObject v)" using 2(1) by blast
  qed
qed simp_all

lemma prune_idempotent_without_undefined:
  "no_undefined_elements (cleanObject x) \<Longrightarrow> cleanObject (cleanObject x) = cleanObject x"
  by (rule settled_fixed) (rule cleaned_settled)

section \<open>Waiting for a Mystic task\<close>

declare poll_from.simps [simp del]

lemma poll_from_skip:
  assumes "\<forall>k. attempt \<le> k \<and> k < n \<longrightarrow> keeps_polling (endpoint k)"
    and "attempt \<le> n" and "n \<le> maxAttempts"
  shows "poll_from endpoint maxAttempts attempt = poll_from endpoint maxAttempts n"
  using assms
proof (induction "n - attempt" arbitrary: attempt)
  case 0
  then show ?case by simp
next
  case (Suc d)
  then have lt: "attempt < n" by simp
  then have kp: "keeps_polling (endpoint attempt)" using Suc.prems(1) by simp
  have step: "poll_from endpoint maxAttempts attempt = poll_from endpoint maxAttempts (attempt + 1)"
    using kp lt Suc.prems(3)
    by (subst poll_from.simps) (cases "endpoint attempt"; auto)
  have "poll_from endpoint maxAttempts (attempt + 1) = poll_from endpoint maxAttempts n"
    using Suc by (intro Suc.hyps(1)) auto
  with step show ?case by simp
qed

lemma poll_from_end:
  "poll_from endpoint maxAttempts maxAttempts =
     \<lparr>outcome = Inl (TimeoutAfter maxAttempts), polls = maxAttempts, sleeps = maxAttempts\<rparr>"
  by (subst poll_from.simps) simp

text \<open>
  Claim C3. For every mocked status sequence: (1) if the endpoint answers PROCESSING to
  the first N - 1 requests and COMPLETED with at least one generated URL to request N,
  with N at most \<open>maxAttempts\<close>, the function returns the first URL, after N requests;
  (2) if request N is answered FAILED (the earlier ones having left the loop running), the
  function raises at once, having sent exactly N requests; (3) if every request is
  answered PROCESSING, the function raises the timeout error after exactly
  \<open>maxAttempts\<close> requests.
\<close>

theorem mystic_polling:
  "(1 \<le> N \<and> N \<le> maxAttempts \<and> (\<forall>k < N - 1. \<exists>g. endpoint k = Response ''PROCESSING'' g) \<and>
      endpoint (N - 1) = Response ''COMPLETED'' (Some (url # urls))
    \<longrightarrow> checkMysticTaskStatus endpoint maxAttempts
          = \<lparr>outcome = Inr url, polls = N, sleeps = N - 1\<rparr>)
   \<and> (1 \<le> N \<and> N \<le> maxAttempts \<and> (\<forall>k < N - 1. keeps_polling (endpoint k)) \<and>
      endpoint (N - 1) = Response ''FAILED'' g
    \<longrightarrow> checkMysticTaskStatus endpoint maxAttempts
          = \<lparr>outcome = Inl (ErrorCheckingTaskStatus (TaskFailed ''FAILED'' g)),
             polls = N, sleeps = N - 1\<rparr>)
   \<and> ((\<forall>k < maxAttempts. \<exists>g. endpoint k = Response ''PROCESSING'' g)
    \<longrightarrow> checkMysticTaskStatus endpoint maxAttempts
          = \<lparr>outcome = Inl (TimeoutAfter maxAttempts), polls = maxAttempts, sleeps = maxAttempts\<rparr>)"
proof (intro conjI impI)
  assume a: "1 \<le> N \<and> N \<le> maxAttempts \<and> (\<forall>k < N - 1. \<exists>g. endpoint k = Response ''PROCESSING'' g) \<and>
      endpoint (N - 1) = Response ''COMPLETED'' (Some (url # urls))"
  then have "\<forall>k. 0 \<le> k \<and> k < N - 1 \<longrightarrow> keeps_polling (endpoint k)" by fastforce
  then have "poll_from endpoint maxAttempts 0 = poll_from endpoint maxAttempts (N - 1)"
    using a by (intro poll_from_skip) auto
  also have "\<dots> = \<lparr>outcome = Inr url, polls = N, sleeps = N - 1\<rparr>"
    using a by (subst poll_from.simps) auto
  finally show "checkMysticTaskStatus endpoint maxAttempts
      = \<lparr>outcome = Inr url, polls = N, sleeps = N - 1\<rparr>"
    by (simp add: checkMysticTaskStatus_def)
next
  assume a: "1 \<le> N \<and> N \<le> maxAttempts \<and> (\<forall>k < N - 1. keeps_polling (endpoint k)) \<and>
      endpoint (N - 1) = Response ''FAILED'' g"
  then have "poll_from endpoint maxAttempts 0 = poll_from endpoint maxAttempts (N - 1)"
    by (intro poll_from_skip) auto
  also have "\<dots> = \<lparr>outcome = Inl (ErrorCheckingTaskStatus (TaskFailed ''FAILED'' g)),
      polls = N, sleeps = N - 1\<rparr>"
    using a by (subst poll_from.simps) auto
  finally show "checkMysticTaskStatus endpoint maxAttempts
      = \<lparr>outcome = Inl (ErrorCheckingTaskStatus (TaskFailed ''FAILED'' g)),
         polls = N, sleeps = N - 1\<rparr>"
    by (simp add: checkMysticTaskStatus_def)
next
  assume a: "\<forall>k < maxAttempts. \<exists>g. endpoint k = Response ''PROCESSING'' g"
  then have "\<forall>k. 0 \<le> k \<and> k < maxAttempts \<longrightarrow> keeps_polling (endpoint k)" by fastforce
  then have "poll_from endpoint maxAttempts 0 = poll_from endpoint maxAttempts maxAttempts"
    by (intro poll_from_skip) auto
  then show "checkMysticTaskStatus endpoint maxAttempts
      = \<lparr>outcome = Inl (TimeoutAfter maxAttempts), polls = maxAttempts, sleeps = maxAttempts\<rparr>"
    by (simp add: checkMysticTaskStatus_def poll_from_end)
qed

theorem mystic_polling_witness:
  "checkMysticTaskStatus
      (\<lambda>k. if k < 2 then Response ''PROCESSING'' None
            else Response ''COMPLETED'' (Some [''https://img/1.png'', ''https://img/2.png''])) 60
     = \<lparr>outcome = Inr ''https://img/1.png'', polls = 3, sleeps = 2\<rparr>
   \<and> checkMysticTaskStatus
      (\<lambda>k. if k < 2 then Response ''PROCESSING'' None else Response ''FAILED'' None) 60
     = \<lparr>outcome = Inl (ErrorCheckingTaskStatus (TaskFailed ''FAILED'' None)), polls = 3, sleeps = 2\<rparr>
   \<and> checkMysticTaskStatus (\<lambda>k. Response ''PROCESSING'' None) 60
     = \<lparr>outcome = Inl (TimeoutAfter 60), polls = 60, sleeps = 60\<rparr>"
proof -
  let ?ok = "\<lambda>k::nat. if k < 2 then Response ''PROCESSING'' None
      else Response ''COMPLETED'' (Some [''https://img/1.png'', ''https://img/2.png''])"
  let ?ko = "\<lambda>k::nat. if k < 2 then Response ''PROCESSING'' None else Response ''FAILED'' None"
  let ?never = "\<lambda>k::nat. Response ''PROCESSING'' None"
  have h1: "(1::nat) \<le> 3 \<and> (3::nat) \<le> 60 \<and> (\<forall>k < 3 - 1. \<exists>g. ?ok k = Response ''PROCESSING'' g) \<and>
      ?ok (3 - 1) = Response ''COMPLETED'' (Some (''https://img/1.png'' # [''https://img/2.png'']))"
    by simp
  have h2: "(1::nat) \<le> 3 \<and> (3::nat) \<le> 60 \<and> (\<forall>k < 3 - 1. keeps_polling (?ko k)) \<and>
      ?ko (3 - 1) = Response ''FAILED'' None"
    by simp
  have h3: "\<forall>k < (60::nat). \<exists>g. ?never k = Response ''PROCESSING'' g"
    by simp
  have r1: "checkMysticTaskStatus ?ok 60 = \<lparr>outcome = Inr ''https://img/1.png'', polls = 3, sleeps = 3 - 1\<rparr>"
    using mystic_polling [of 3 60 ?ok "''https://img/1.png''" "[''https://img/2.png'']"] h1 by blast
  have r2: "checkMysticTaskStatus ?ko 60
      = \<lparr>outcome = Inl (ErrorCheckingTaskStatus (TaskFailed ''FAILED'' None)), polls = 3, sleeps = 3 - 1\<rparr>"
    using mystic_polling [of 3 60 ?ko _ _ None] h2 by blast
  have r3: "checkMysticTaskStatus ?never 60
      = \<lparr>outcome = Inl (TimeoutAfter 60), polls = 60, sleeps = 60\<rparr>"
    using mystic_polling [of _ 60 ?never] h3 by blast
  from r1 r2 r3 show ?thesis by simp
qed

text \<open>
  Claim C10. A COMPLETED response whose generated list is empty or missing is neither a
  success nor a failure: the loop goes on to the next request. So (1) after N - 1 such
  responses a COMPLETED response with a URL at request N still makes the function return
  that URL, having sent N requests; (2) after N - 1 such responses a FAILED response at
  request N is the failure reported, after N requests; (3) from any such response the
  loop proceeds to the next attempt; and (4) when every request up to \<open>maxAttempts\<close> is
  answered so, the function raises the timeout error after \<open>maxAttempts\<close> requests and
  returns no URL.
\<close>

theorem completed_without_url:
  "(1 \<le> N \<and> N \<le> maxAttempts \<and>
      (\<forall>k < N - 1. endpoint k = Response ''COMPLETED'' None \<or>
                    endpoint k = Response ''COMPLETED'' (Some [])) \<and>
      endpoint (N - 1) = Response ''COMPLETED'' (Some (url # urls))
    \<longrightarrow> checkMysticTaskStatus endpoint maxAttempts
          = \<lparr>outcome = Inr url, polls = N, sleeps = N - 1\<rparr>)
   \<and> (1 \<le> N \<and> N \<le> maxAttempts \<and>
      (\<forall>k < N - 1. endpoint k = Response ''COMPLETED'' None \<or>
                    endpoint k = Response ''COMPLETED'' (Some [])) \<and>
      endpoint (N - 1) = Response ''FAILED'' g
    \<longrightarrow> checkMysticTaskStatus endpoint maxAttempts
          = \<lparr>outcome = Inl (ErrorCheckingTaskStatus (TaskFailed ''FAILED'' g)),
             polls = N, sleeps = N - 1\<rparr>)
   \<and> (attempt < maxAttempts \<and>
      (endpoint attempt = Response ''COMPLETED'' None \<or>
       endpoint attempt = Response ''COMPLETED'' (Some []))
    \<longrightarrow> poll_from endpoint maxAttempts attempt = poll_from endpoint maxAttempts (attempt + 1))
   \<and> ((\<forall>k < maxAttempts. endpoint k = Response ''COMPLETED'' None \<or>
                         endpoint k = Response ''COMPLETED'' (Some []))
    \<longrightarrow> checkMysticTaskStatus endpoint maxAttempts
          = \<lparr>outcome = Inl (TimeoutAfter maxAttempts), polls = maxAttempts, sleeps = maxAttempts\<rparr>)"
proof -
  have keeps: "\<forall>k. 0 \<le> k \<and> k < n \<longrightarrow> keeps_polling (endpoint k)"
    if "\<forall>k < n. endpoint k = Response ''COMPLETED'' None \<or>
                  endpoint k = Response ''COMPLETED'' (Some [])" for n
  proof (intro allI impI)
    fix k assume "0 \<le> k \<and> k < n"
    then have "endpoint k = Response ''COMPLETED'' None \<or> endpoint k = Response ''COMPLETED'' (Some [])"
      using that by simp
    then show "keeps_polling (endpoint k)" by auto
  qed
  show ?thesis
  proof (intro conjI impI)
    assume a: "1 \<le> N \<and> N \<le> maxAttempts \<and>
      (\<forall>k < N - 1. endpoint k = Response ''COMPLETED'' None \<or>
                    endpoint k = Response ''COMPLETED'' (Some [])) \<and>
      endpoint (N - 1) = Response ''COMPLETED'' (Some (url # urls))"
    then have "\<forall>k. 0 \<le> k \<and> k < N - 1 \<longrightarrow> keeps_polling (endpoint k)"
      by (intro keeps) simp
    then have "poll_from endpoint maxAttempts 0 = poll_from endpoint maxAttempts (N - 1)"
      using a by (intro poll_from_skip) auto
    also have "\<dots> = \<lparr>outcome = Inr url, polls = N, sleeps = N - 1\<rparr>"
      using a by (subst poll_from.simps) auto
    finally show "checkMysticTaskStatus endpoint maxAttempts
        = \<lparr>outcome = Inr url, polls = N, sleeps = N - 1\<rparr>"
      by (simp add: checkMysticTaskStatus_def)
  next
    assume a: "1 \<le> N \<and> N \<le> maxAttempts \<and>
      (\<forall>k < N - 1. endpoint k = Response ''COMPLETED'' None \<or>
                    endpoint k = Response ''COMPLETED'' (Some [])) \<and>
      endpoint (N - 1) = Response ''FAILED'' g"
    then have "\<forall>k. 0 \<le> k \<and> k < N - 1 \<longrightarrow> keeps_polling (endpoint k)"
      by (intro keeps) simp
    then have "poll_from endpoint maxAttempts 0 = poll_from endpoint maxAttempts (N - 1)"
      using a by (intro poll_from_skip) auto
    also have "\<dots> = \<lparr>outcome = Inl (ErrorCheckingTaskStatus (TaskFailed ''FAILED'' g)),
        polls = N, sleeps = N - 1\<rparr>"
      using a by (subst poll_from.simps) auto
    finally show "checkMysticTaskStatus endpoint maxAttempts
        = \<lparr>outcome = Inl (ErrorCheckingTaskStatus (TaskFailed ''FAILED'' g)),
           polls = N, sleeps = N - 1\<rparr>"
      by (simp add: checkMysticTaskStatus_def)
  next
    assume "attempt < maxAttempts \<and>
        (endpoint attempt = Response ''COMPLETED'' None \<or>
         endpoint attempt = Response ''COMPLETED'' (Some []))"
    then show "poll_from endpoint maxAttempts attempt = poll_from endpoint maxAttempts (attempt + 1)"
      by (subst poll_from.simps) auto
  next
    assume a: "\<forall>k < maxAttempts. endpoint k = Response ''COMPLETED'' None \<or>
                           endpoint k = Response ''COMPLETED'' (Some [])"
    then have "\<forall>k. 0 \<le> k \<and> k < maxAttempts \<longrightarrow> keeps_polling (endpoint k)"
      by (rule keeps)
    then have "poll_from endpoint maxAttempts 0 = poll_from endpoint maxAttempts maxAttempts"
      by (intro poll_from_skip) auto
    then show "checkMysticTaskStatus endpoint maxAttempts
        = \<lparr>outcome = Inl (TimeoutAfter maxAttempts), polls = maxAttempts, sleeps = maxAttempts\<rparr>"
      by (simp add: checkMysticTaskStatus_def poll_from_end)
  qed
qed

theorem completed_without_url_witness:
  "checkMysticTaskStatus
      (\<lambda>k. if k = 0 then Response ''COMPLETED'' None
            else if k = 1 then Response ''COMPLETED'' (Some [])
            else Response ''COMPLETED'' (Some [''https://img/1.png''])) 60
     = \<lparr>outcome = Inr ''https://img/1.png'', polls = 3, sleeps = 2\<rparr>
   \<and> checkMysticTaskStatus
      (\<lambda>k. if k = 0 then Response ''COMPLETED'' None
            else if k = 1 then Response ''COMPLETED'' (Some [])
            else Response ''FAILED'' None) 60
     = \<lparr>outcome = Inl (ErrorCheckingTaskStatus (TaskFailed ''FAILED'' None)), polls = 3, sleeps = 2\<rparr>
   \<and> poll_from (\<lambda>k. if even k then Response ''COMPLETED'' None else Response ''COMPLETED'' (Some [])) 4 1
     = poll_from (\<lambda>k. if even k then Response ''COMPLETED'' None else Response ''COMPLETED'' (Some [])) 4 (1 + 1)
   \<and> checkMysticTaskStatus
       (\<lambda>k. if even k then Response ''COMPLETED'' None else Response ''COMPLETED'' (Some [])) 4
     = \<lparr>outcome = Inl (TimeoutAfter 4), polls = 4, sleeps = 4\<rparr>"
proof -
  let ?ok = "\<lambda>k::nat. if k = 0 then Response ''COMPLETED'' None
            else if k = 1 then Response ''COMPLETED'' (Some [])
            else Response ''COMPLETED'' (Some [''https://img/1.png''])"
  let ?ko = "\<lambda>k::nat. if k = 0 then Response ''COMPLETED'' None
            else if k = 1 then Response ''COMPLETED'' (Some [])
            else Response ''FAILED'' None"
  let ?e = "\<lambda>k::nat. if even k then Response ''COMPLETED'' None else Response ''COMPLETED'' (Some [])"
  have h1: "(1::nat) \<le> 3 \<and> (3::nat) \<le> 60 \<and>
      (\<forall>k < 3 - 1. ?ok k = Response ''COMPLETED'' None \<or> ?ok k = Response ''COMPLETED'' (Some [])) \<and>
      ?ok (3 - 1) = Response ''COMPLETED'' (Some (''https://img/1.png'' # []))"
    by simp
  have h2: "(1::nat) \<le> 3 \<and> (3::nat) \<le> 60 \<and>
      (\<forall>k < 3 - 1. ?ko k = Response ''COMPLETED'' None \<or> ?ko k = Response ''COMPLETED'' (Some [])) \<and>
      ?ko (3 - 1) = Response ''FAILED'' None"
    by simp
  have h3: "(1::nat) < 4 \<and> (?e 1 = Response ''COMPLETED'' None \<or> ?e 1 = Response ''COMPLETED'' (Some []))"
    by simp
  have h4: "\<forall>k < (4::nat). ?e k = Response ''COMPLETED'' None \<or> ?e k = Response ''COMPLETED'' (Some [])"
    by simp
  have r1: "checkMysticTaskStatus ?ok 60 = \<lparr>outcome = Inr ''https://img/1.png'', polls = 3, sleeps = 3 - 1\<rparr>"
    using completed_without_url [of 3 60 ?ok "''https://img/1.png''" "[]"] h1 by blast
  have r2: "checkMysticTaskStatus ?ko 60
      = \<lparr>outcome = Inl (ErrorCheckingTaskStatus (TaskFailed ''FAILED'' None)), polls = 3, sleeps = 3 - 1\<rparr>"
    using completed_without_url [of 3 60 ?ko _ _ None] h2 by blast
  have r34: "poll_from ?e 4 1 = poll_from ?e 4 (1 + 1)
      \<and> checkMysticTaskStatus ?e 4 = \<lparr>outcome = Inl (TimeoutAfter 4), polls = 4, sleeps = 4\<rparr>"
    using completed_without_url [of _ 4 ?e _ _ _ 1] h3 h4 by blast
  from r1 r2 r34 show ?thesis by simp
qed

section \<open>Book state initialization\<close>

text \<open>
  Claim C5. For a fixed lesson table, initialization is deterministic in the chapter ids:
  two calls, whatever their titles and clock readings, give the same sequence of ids. For
  any title the first chapter has id \<open>introduction\<close>, the last has id \<open>conclusion\<close>, and
  the chapters in between are exactly one per (lesson, topic) pair, with id
  \<open><lessonId>_<topicKey>\<close>, in the order of the table.
\<close>

theorem initialize_chapter_ids:
  "map ch_id (chapters (initializeBookState BOOK_CONTENT now1 title1 :: 'n book_state))
     = map ch_id (chapters (initializeBookState BOOK_CONTENT now2 title2 :: 'n book_state))
   \<and> map ch_id (chapters (initializeBookState BOOK_CONTENT now1 title1 :: 'n book_state))
     = [''introduction''] @ lesson_topic_ids BOOK_CONTENT @ [''conclusion'']
   \<and> ch_id (hd (chapters (initializeBookState BOOK_CONTENT now1 title1 :: 'n book_state)))
     = ''introduction''
   \<and> ch_id (last (chapters (initializeBookState BOOK_CONTENT now1 title1 :: 'n book_state)))
     = ''conclusion''
   \<and> map ch_id (butlast (tl (chapters (initializeBookState BOOK_CONTENT now1 title1 :: 'n book_state))))
     = lesson_topic_ids BOOK_CONTENT"
proof -
  have ids: "map ch_id (concat (map (\<lambda>lesson. map (\<lambda>topic. lesson_chapter lesson topic)
               (lesson_topics lesson)) BOOK_CONTENT)) = lesson_topic_ids BOOK_CONTENT"
    by (induction BOOK_CONTENT) (simp_all add: lesson_topic_ids_def lesson_chapter_def comp_def)
  show ?thesis
    by (simp add: initializeBookState_def initializeChaptersFromLessons_def ids butlast_append)
qed

section \<open>Choosing the next chapter\<close>

text \<open>
  Claim C9. For every chapters array the selection of the next chapter needing attention
  never returns an accepted chapter: it returns the first chapter in book order whose
  status is not \<open>accepted\<close>, and it returns nothing exactly when every chapter is accepted.
\<close>

theorem next_chapter_selection:
  "(case getNextChapter chs of
      None \<Rightarrow> (\<forall>c \<in> set chs. ch_status c = accepted)
    | Some c \<Rightarrow> ch_status c \<noteq> accepted \<and>
        (\<exists>i < length chs. chs ! i = c \<and> (\<forall>j < i. ch_status (chs ! j) = accepted)))
   \<and> (getNextChapter chs = None \<longleftrightarrow> (\<forall>c \<in> set chs. ch_status c = accepted))"
proof (cases "getNextChapter chs")
  case None
  then have "\<forall>c \<in> set chs. ch_status c = accepted"
    by (auto simp: getNextChapter_def find_None_iff)
  with None show ?thesis by simp
next
  case (Some c)
  then have "\<exists>i < length chs. ch_status (chs ! i) \<noteq> accepted \<and> c = chs ! i \<and>
      (\<forall>j < i. \<not> ch_status (chs ! j) \<noteq> accepted)"
    by (simp add: getNextChapter_def find_Some_iff)
  then obtain i where i: "i < length chs" "ch_status (chs ! i) \<noteq> accepted" "c = chs ! i"
      "\<forall>j < i. ch_status (chs ! j) = accepted"
    by auto
  then have "chs ! i \<in> set chs" by simp
  with i Some show ?thesis by auto
qed

theorem next_chapter_selection_witness:
  "getNextChapter
     (map (\<lambda>(key, st). (lesson_chapter
              \<lparr>lesson_id = ''basicConcepts'', lesson_title = ''Basic concepts'',
               lesson_description = ''First steps'', lesson_order = 1, lesson_topics = []\<rparr>
              \<lparr>topic_key = key, topic_title = key, topic_example = ''e'', topic_summary = ''s''\<rparr>)
              \<lparr>ch_status := st\<rparr>)
        [(''money'', accepted), (''prices'', wip), (''costs'', not_generated)])
   = Some ((lesson_chapter
              \<lparr>lesson_id = ''basicConcepts'', lesson_title = ''Basic concepts'',
               lesson_description = ''First steps'', lesson_order = 1, lesson_topics = []\<rparr>
              \<lparr>topic_key = ''prices'', topic_title = ''prices'', topic_example = ''e'',
               topic_summary = ''s''\<rparr>)
              \<lparr>ch_status := wip\<rparr>)
   \<and> (\<exists>c \<in> set (map (\<lambda>(key, st). (lesson_chapter
              \<lparr>lesson_id = ''basicConcepts'', lesson_title = ''Basic concepts'',
               lesson_description = ''First steps'', lesson_order = 1, lesson_topics = []\<rparr>
              \<lparr>topic_key = key, topic_title = key, topic_example = ''e'', topic_summary = ''s''\<rparr>)
              \<lparr>ch_status := st\<rparr>)
        [(''money'', accepted), (''prices'', wip), (''costs'', not_generated)]).
        ch_status c \<noteq> accepted)"
  using next_chapter_selection [of "map (\<lambda>(key, st). (lesson_chapter
              \<lparr>lesson_id = ''basicConcepts'', lesson_title = ''Basic concepts'',
               lesson_description = ''First steps'', lesson_order = 1, lesson_topics = []\<rparr>
              \<lparr>topic_key = key, topic_title = key, topic_example = ''e'', topic_summary = ''s''\<rparr>)
              \<lparr>ch_status := st\<rparr>)
        [(''money'', accepted), (''prices'', wip), (''costs'', not_generated)]"]
  by (simp add: getNextChapter_def lesson_chapter_def)

section \<open>Illustration prompts\<close>

lemma find_style_unknown:
  "s \<notin> set (map style_name styles) \<Longrightarrow> find (\<lambda>e. style_name e = s) styles = None"
  by (induction styles) auto

lemma map_of_unknown: "p \<notin> set (map fst presets) \<Longrightarrow> map_of presets p = None"
  by (simp add: map_of_eq_None_iff)

lemma first_style_name: "style_name (DEFAULT_IMAGE_STYLE_PROMPT ! 0) = ''storybook''"
  by (simp add: DEFAULT_IMAGE_STYLE_PROMPT_def)

lemma unknown_is_no_style: "''unknown'' \<notin> set (map style_name DEFAULT_IMAGE_STYLE_PROMPT)"
  by (simp add: DEFAULT_IMAGE_STYLE_PROMPT_def)

lemma unknown_is_no_preset: "''unknown'' \<notin> set (map fst IMAGE_STYLE_PRESETS)"
  by (simp add: IMAGE_STYLE_PRESETS_def)

text \<open>
  Claim C8. For every non-empty description \<open>x\<close>: the prompt is the base style, a space,
  the preset addendum and \<open>Scene: x\<close>, so it always ends with \<open>Scene: x\<close>; a style name that
  is not in the table gives the prompt text of the first style of the table (the one named
  \<open>storybook\<close>); a preset name that is not in the table gives the empty addendum. In
  particular the options \<open>{style: "unknown", preset: "unknown", description: "x"}\<close> give
  the first style's text followed by two spaces and \<open>Scene: x\<close>.
\<close>

theorem illustration_prompt_fallback:
  "x \<noteq> [] \<longrightarrow>
     getIllustrationPrompt \<lparr>description = Some x, style = Some s, preset = Some p\<rparr>
       = Inr (baseStyle s @ '' '' @ presetAddon p @ '' Scene: '' @ x)
     \<and> (\<exists>before. getIllustrationPrompt \<lparr>description = Some x, style = st, preset = pr\<rparr>
           = Inr (before @ ''Scene: '' @ x))
     \<and> (s \<notin> set (map style_name DEFAULT_IMAGE_STYLE_PROMPT)
          \<longrightarrow> baseStyle s = style_prompt (DEFAULT_IMAGE_STYLE_PROMPT ! 0))
     \<and> style_name (DEFAULT_IMAGE_STYLE_PROMPT ! 0) = ''storybook''
     \<and> (p \<notin> set (map fst IMAGE_STYLE_PRESETS) \<longrightarrow> presetAddon p = [])
     \<and> getIllustrationPrompt
          \<lparr>description = Some ''x'', style = Some ''unknown'', preset = Some ''unknown''\<rparr>
        = Inr (style_prompt (DEFAULT_IMAGE_STYLE_PROMPT ! 0) @ ''  Scene: x'')"
proof (intro impI conjI)
  assume x: "x \<noteq> []"
  show "getIllustrationPrompt \<lparr>description = Some x, style = Some s, preset = Some p\<rparr>
       = Inr (baseStyle s @ '' '' @ presetAddon p @ '' Scene: '' @ x)"
    using x by (simp add: getIllustrationPrompt_def)
  have "getIllustrationPrompt \<lparr>description = Some x, style = st, preset = pr\<rparr>
      = Inr ((baseStyle (case st of None \<Rightarrow> ''storybook'' | Some s \<Rightarrow> s) @ '' '' @
              presetAddon (case pr of None \<Rightarrow> ''emotionalCloseUp'' | Some p \<Rightarrow> p) @ '' '')
             @ ''Scene: '' @ x)"
    using x by (simp add: getIllustrationPrompt_def)
  then show "\<exists>before. getIllustrationPrompt \<lparr>description = Some x, style = st, preset = pr\<rparr>
           = Inr (before @ ''Scene: '' @ x)"
    by blast
next
  assume "s \<notin> set (map style_name DEFAULT_IMAGE_STYLE_PROMPT)"
  then show "baseStyle s = style_prompt (DEFAULT_IMAGE_STYLE_PROMPT ! 0)"
    by (simp add: baseStyle_def find_style_unknown)
next
  show "style_name (DEFAULT_IMAGE_STYLE_PROMPT ! 0) = ''storybook''"
    by (rule first_style_name)
next
  assume "p \<notin> set (map fst IMAGE_STYLE_PRESETS)"
  then show "presetAddon p = []"
    by (simp add: presetAddon_def map_of_unknown)
next
  have "baseStyle ''unknown'' = style_prompt (DEFAULT_IMAGE_STYLE_PROMPT ! 0)"
    using unknown_is_no_style by (simp add: baseStyle_def find_style_unknown)
  moreover have "presetAddon ''unknown'' = []"
    using unknown_is_no_preset by (simp add: presetAddon_def map_of_unknown)
  ultimately show "getIllustrationPrompt
          \<lparr>description = Some ''x'', style = Some ''unknown'', preset = Some ''unknown''\<rparr>
        = Inr (style_prompt (DEFAULT_IMAGE_STYLE_PROMPT ! 0) @ ''  Scene: x'')"
    by (simp add: getIllustrationPrompt_def)
qed

theorem illustration_prompt_fallback_witness:
  "getIllustrationPrompt
      \<lparr>description = Some ''a fox counting coins'', style = Some ''unknown'', preset = Some ''unknown''\<rparr>
     = Inr (style_prompt (DEFAULT_IMAGE_STYLE_PROMPT ! 0) @ ''  Scene: a fox counting coins'')"
proof -
  have x: "''a fox counting coins'' \<noteq> []" by simp
  from illustration_prompt_fallback [of "''a fox counting coins''" "''unknown''" "''unknown''"]
    x unknown_is_no_style unknown_is_no_preset
  show ?thesis by simp
qed

section \<open>The chapter workflow\<close>

lemma saveBookState_simps [simp]:
  "mem_chapter (saveBookState s) = mem_chapter s"
  "saved_chapter (saveBookState s) = mem_chapter s"
  "content_md (saveBookState s) = content_md s"
  "status_writes (saveBookState s) = status_writes s"
  by (simp_all add: saveBookState_def)

lemma set_status_simps [simp]:
  "mem_chapter (set_status new s) = (mem_chapter s)\<lparr>ch_status := new\<rparr>"
  "saved_chapter (set_status new s) = saved_chapter s"
  "content_md (set_status new s) = content_md s"
  "status_writes (set_status new s) = status_writes s @ [(ch_status (mem_chapter s), new)]"
  by (simp_all add: set_status_def)

lemma appendFile_content_simps [simp]:
  "mem_chapter (appendFile_content d s) = mem_chapter s"
  "saved_chapter (appendFile_content d s) = saved_chapter s"
  "content_md (appendFile_content d s) = content_md s @ d"
  "status_writes (appendFile_content d s) = status_writes s"
  by (simp_all add: appendFile_content_def)

text \<open>The image dialogue leaves status, text, topic, \<^verbatim>\<open>content.md\<close> and the log alone.\<close>

lemma handleImageGeneration_keeps:
  "status_writes (snd (handleImageGeneration env rounds s)) = status_writes s
   \<and> content_md (snd (handleImageGeneration env rounds s)) = content_md s
   \<and> ch_status (mem_chapter (snd (handleImageGeneration env rounds s))) = ch_status (mem_chapter s)
   \<and> ch_text (mem_chapter (snd (handleImageGeneration env rounds s))) = ch_text (mem_chapter s)
   \<and> ch_topic (mem_chapter (snd (handleImageGeneration env rounds s))) = ch_topic (mem_chapter s)"
proof (induction env rounds s rule: handleImageGeneration.induct)
  case (4 env img imageAction rounds s)
  show ?case
  proof (cases imageAction)
    case AcceptImage
    then show ?thesis by (simp add: Let_def)
  next
    case RegenerateImage
    then show ?thesis using 4(1) by (simp add: Let_def)
  next
    case ModifyImagePrompt
    then show ?thesis using 4(2) by (simp add: Let_def)
  next
    case SkipImage
    then show ?thesis by (simp add: Let_def)
  qed
qed simp_all

lemma handleImageGeneration_keeps_simps [simp]:
  "status_writes (snd (handleImageGeneration env rounds s)) = status_writes s"
  "content_md (snd (handleImageGeneration env rounds s)) = content_md s"
  "ch_status (mem_chapter (snd (handleImageGeneration env rounds s))) = ch_status (mem_chapter s)"
  using handleImageGeneration_keeps [of env rounds s] by blast+

lemma accepted_after_content_simps [simp]:
  "accepted_after_content []"
  "accepted_after_content ((old, new) # ws) \<longleftrightarrow>
     (new = accepted \<longrightarrow> old \<noteq> not_generated) \<and> accepted_after_content ws"
  "accepted_after_content (ws @ vs) \<longleftrightarrow>
     accepted_after_content ws \<and> accepted_after_content vs"
  by (simp_all add: accepted_after_content_def)

lemma generation_loop_writes:
  "accepted_after_content (status_writes s) \<Longrightarrow>
   accepted_after_content (status_writes (snd (generation_loop env isIntroduction prompt rounds s)))"
proof (induction rounds arbitrary: prompt s)
  case Nil
  then show ?case by simp
next
  case (Cons r rounds)
  show ?case
  proof (cases "reviewPrompt prompt (prompt_review r)")
    case None
    then show ?thesis using Cons.prems by simp
  next
    case (Some p)
    show ?thesis
    proof (cases "p = [] \<or> (\<exists>e. initial_completion r = Inl e)
                  \<or> (\<exists>e. personalization_completion r = Inl e)")
      case True
      then show ?thesis using Cons.prems Some by (auto split: sum.splits)
    next
      case False
      then obtain t u where ok: "p \<noteq> []" "initial_completion r = Inr t"
          "personalization_completion r = Inr u"
        by (cases "initial_completion r"; cases "personalization_completion r") auto
      let ?s4 = "saveBookState ((set_status generated
          (s\<lparr>mem_chapter := (mem_chapter s)\<lparr>ch_text := Some u\<rparr>\<rparr>))
            \<lparr>mem_chapter := (mem_chapter (set_status generated
                (s\<lparr>mem_chapter := (mem_chapter s)\<lparr>ch_text := Some u\<rparr>\<rparr>)))
              \<lparr>ch_generationConfig := Some
                 \<lparr>initialPrompt = p,
                  personalizationPrompt =
                    (if isIntroduction then personalizeIntroductionContent env t
                     else personalizeChapterContent env t),
                  model = env_chatModel env, temperature = env_temperature env,
                  timestamp = generation_clock r\<rparr>\<rparr>\<rparr>)"
      have w4: "accepted_after_content (status_writes ?s4)"
        and st4: "ch_status (mem_chapter ?s4) = generated"
        using Cons.prems by simp_all
      then have wip: "accepted_after_content (status_writes (saveBookState (set_status wip ?s4)))"
        by simp
      show ?thesis
      proof (cases "content_review r")
        case (AcceptContent imageRounds)
        have "accepted_after_content (status_writes (saveBookState (appendFile_content
                (content_section (ch_topic (mem_chapter (set_status accepted ?s4))) u)
                (set_status accepted ?s4))))"
          using w4 st4 by simp
        then have "accepted_after_content (status_writes (snd (handleImageGeneration env imageRounds
              (saveBookState (appendFile_content
                (content_section (ch_topic (mem_chapter (set_status accepted ?s4))) u)
                (set_status accepted ?s4))))))"
          by (simp only: handleImageGeneration_keeps_simps)
        moreover have "snd (generation_loop env isIntroduction prompt (r # rounds) s)
            = snd (handleImageGeneration env imageRounds
              (saveBookState (appendFile_content
                (content_section (ch_topic (mem_chapter (set_status accepted ?s4))) u)
                (set_status accepted ?s4))))"
          using Some ok AcceptContent by (simp add: Let_def split: prod.splits outcome.splits)
        ultimately show ?thesis by (simp only:)
      next
        case RegenerateContent
        then show ?thesis using Some ok Cons.IH [OF wip] by (simp add: Let_def)
      next
        case ModifyContentPrompt
        then show ?thesis using Some ok Cons.IH [OF wip] by (simp add: Let_def)
      next
        case MarkContentWip
        then show ?thesis using Some ok wip by (simp add: Let_def)
      qed
    qed
  qed
qed

lemma handleChapter_writes:
  "accepted_after_content (status_writes s) \<Longrightarrow>
   accepted_after_content (status_writes (snd (handleChapter env script s)))"
proof (induction script arbitrary: s)
  case Nil
  then show ?case by simp
next
  case (Cons action script)
  show ?case
  proof (cases "disabled action (mem_chapter s)")
    case True
    then show ?thesis using Cons by simp
  next
    case False
    show ?thesis
    proof (cases action)
      case (Generate rounds)
      obtain out s' where g: "generateChapterContent env rounds s = (out, s')"
        by (cases "generateChapterContent env rounds s")
      have "accepted_after_content (status_writes (snd (generateChapterContent env rounds s)))"
        using Cons.prems by (simp add: generateChapterContent_def Let_def generation_loop_writes)
      then have "accepted_after_content (status_writes s')" using g by simp
      then show ?thesis using Generate False g Cons.IH [of s'] Cons.prems
        by (cases out) simp_all
    next
      case ReviewCurrentContent
      then show ?thesis using False Cons by simp
    next
      case MarkWip
      then show ?thesis using False Cons.IH [of "saveBookState (set_status wip s)"] Cons.prems
        by simp
    next
      case MarkAccepted
      then show ?thesis using False Cons.prems by simp
    next
      case Back
      then show ?thesis using False Cons.prems by simp
    qed
  qed
qed

text \<open>
  Claim C4. In every run of the chapter menu, whatever the script and whatever the
  chapter, a chapter's status is set to \<open>accepted\<close> only over a status that is not
  \<open>not_generated\<close>: if the assignments made so far respect this, so do all assignments
  of the run. A status that becomes \<open>accepted\<close> without having been so was \<open>generated\<close> or
  \<open>wip\<close>.
\<close>

theorem accepted_only_after_content:
  "accepted_after_content (status_writes s) \<longrightarrow>
     accepted_after_content (status_writes (snd (handleChapter env script s)))
     \<and> (\<forall>(old, new) \<in> set (status_writes (snd (handleChapter env script s))).
           new = accepted \<and> old \<noteq> accepted \<longrightarrow> old = generated \<or> old = wip)"
proof
  assume "accepted_after_content (status_writes s)"
  then have a: "accepted_after_content (status_writes (snd (handleChapter env script s)))"
    by (rule handleChapter_writes)
  have "old = generated \<or> old = wip"
    if "(old, new) \<in> set (status_writes (snd (handleChapter env script s)))"
      and "new = accepted" and "old \<noteq> accepted" for old new
  proof -
    have "old \<noteq> not_generated"
      using a that by (auto simp: accepted_after_content_def list_all_iff)
    with that(3) show ?thesis by (cases old) simp_all
  qed
  with a show "accepted_after_content (status_writes (snd (handleChapter env script s)))
     \<and> (\<forall>(old, new) \<in> set (status_writes (snd (handleChapter env script s))).
           new = accepted \<and> old \<noteq> accepted \<longrightarrow> old = generated \<or> old = wip)"
    by blast
qed

theorem accepted_only_after_content_witness:
  "accepted_after_content (status_writes sample_session)
   \<and> status_writes (snd (handleChapter sample_env
         [MarkAccepted, Generate [round_regenerate, round_accept], MarkAccepted] sample_session))
       = [(not_generated, generated), (generated, wip), (wip, generated),
          (generated, accepted), (accepted, accepted)]
   \<and> accepted_after_content (status_writes (snd (handleChapter sample_env
         [MarkAccepted, Generate [round_regenerate, round_accept], MarkAccepted] sample_session)))"
proof -
  have h: "accepted_after_content (status_writes sample_session)"
    by (simp add: sample_session_def)
  have run: "status_writes (snd (handleChapter sample_env
         [MarkAccepted, Generate [round_regenerate, round_accept], MarkAccepted] sample_session))
       = [(not_generated, generated), (generated, wip), (wip, generated),
          (generated, accepted), (accepted, accepted)]"
    by (simp add: sample_session_def sample_chapter_def lesson_chapter_def sample_env_def
        round_regenerate_def round_accept_def generateChapterContent_def Let_def)
  from accepted_only_after_content [of sample_session sample_env
      "[MarkAccepted, Generate [round_regenerate, round_accept], MarkAccepted]"] h run
  show ?thesis by blast
qed

text \<open>
  Claim C7. When a call of the chat completion raises an error, in whichever iteration of
  the generation loop and whether it is the initial or the personalization call, the
  function returns \<open>false\<close> and the state is what it was when that iteration began: the
  chapter in memory with its status, the saved book state and \<^verbatim>\<open>content.md\<close> are
  unchanged, and nothing is saved.
\<close>

theorem failed_generation_changes_nothing:
  "reviewPrompt prompt (prompt_review r) = Some p \<and> p \<noteq> [] \<and>
   (initial_completion r = Inl e \<or>
    (initial_completion r = Inr t \<and> personalization_completion r = Inl e))
   \<longrightarrow> generation_loop env isIntroduction prompt (r # rounds) s = (Returned False, s)
     \<and> ch_status (mem_chapter (snd (generation_loop env isIntroduction prompt (r # rounds) s)))
         = ch_status (mem_chapter s)
     \<and> saved_chapter (snd (generation_loop env isIntroduction prompt (r # rounds) s))
         = saved_chapter s"
  by (auto simp: Let_def)

theorem failed_generation_changes_nothing_witness:
  "generation_loop sample_env False ''Please write an educational chapter about What money is''
      [round_failing, round_accept] (saveBookState (set_status wip sample_session))
     = (Returned False, saveBookState (set_status wip sample_session))
   \<and> ch_status (mem_chapter (snd (generation_loop sample_env False
        ''Please write an educational chapter about What money is''
        [round_failing, round_accept] (saveBookState (set_status wip sample_session))))) = wip"
proof -
  have h: "reviewPrompt ''Please write an educational chapter about What money is''
        (prompt_review round_failing)
      = Some ''Please write an educational chapter about What money is''
    \<and> ''Please write an educational chapter about What money is'' \<noteq> []
    \<and> (initial_completion round_failing = Inl ''429 Too Many Requests'' \<or>
        (initial_completion round_failing = Inr ''A third draft'' \<and>
         personalization_completion round_failing = Inl ''429 Too Many Requests''))"
    by (simp add: round_failing_def)
  from failed_generation_changes_nothing [of
      "''Please write an educational chapter about What money is''" round_failing
      "''Please write an educational chapter about What money is''" "''429 Too Many Requests''"
      "''A third draft''" sample_env False "[round_accept]"
      "saveBookState (set_status wip sample_session)"] h
  show ?thesis by simp
qed

text \<open>
  Claim C1. Acceptance is meant to append one section to \<^verbatim>\<open>content.md\<close>. The entry
  \<open>Mark as Accepted\<close> of the chapter menu sets the status to \<open>accepted\<close> and saves the book
  state, and leaves \<^verbatim>\<open>content.md\<close> as it was.
\<close>

theorem mark_accepted_appends_nothing:
  "handleChapter env [MarkAccepted] (s\<lparr>mem_chapter := (mem_chapter s)\<lparr>ch_status := generated\<rparr>\<rparr>)
     = (Returned (),
        s\<lparr>mem_chapter := (mem_chapter s)\<lparr>ch_status := accepted\<rparr>,
          saved_chapter := (mem_chapter s)\<lparr>ch_status := accepted\<rparr>,
          status_writes := status_writes s @ [(generated, accepted)]\<rparr>)
   \<and> content_md (snd (handleChapter env [MarkAccepted]
        (s\<lparr>mem_chapter := (mem_chapter s)\<lparr>ch_status := generated\<rparr>\<rparr>))) = content_md s"
  by (simp add: set_status_def saveBookState_def)

text \<open>
  The acceptance made in the content review does append: exactly one section, with the
  topic and the personalized text, whatever the image dialogue does afterwards.
\<close>

lemma accept_in_review_appends_section:
  assumes "reviewPrompt prompt (prompt_review r) = Some p" and "p \<noteq> []"
    and "initial_completion r = Inr t" and "personalization_completion r = Inr u"
    and "content_review r = AcceptContent imageRounds"
  shows "content_md (snd (generation_loop env isIntroduction prompt (r # rounds) s))
           = content_md s @ content_section (ch_topic (mem_chapter s)) u"
    and "ch_status (mem_chapter (snd (generation_loop env isIntroduction prompt (r # rounds) s)))
           = accepted"
proof -
  let ?s3 = "(set_status generated (s\<lparr>mem_chapter := (mem_chapter s)\<lparr>ch_text := Some u\<rparr>\<rparr>))
            \<lparr>mem_chapter := (mem_chapter (set_status generated
                (s\<lparr>mem_chapter := (mem_chapter s)\<lparr>ch_text := Some u\<rparr>\<rparr>)))
              \<lparr>ch_generationConfig := Some
                 \<lparr>initialPrompt = p,
                  personalizationPrompt =
                    (if isIntroduction then personalizeIntroductionContent env t
                     else personalizeChapterContent env t),
                  model = env_chatModel env, temperature = env_temperature env,
                  timestamp = generation_clock r\<rparr>\<rparr>\<rparr>"
  let ?s7 = "saveBookState (appendFile_content
                (content_section (ch_topic (mem_chapter (set_status accepted (saveBookState ?s3)))) u)
                (set_status accepted (saveBookState ?s3)))"
  have run: "snd (generation_loop env isIntroduction prompt (r # rounds) s)
      = snd (handleImageGeneration env imageRounds ?s7)"
    using assms by (simp add: Let_def split: prod.splits outcome.splits)
  show "content_md (snd (generation_loop env isIntroduction prompt (r # rounds) s))
           = content_md s @ content_section (ch_topic (mem_chapter s)) u"
    unfolding run by simp
  show "ch_status (mem_chapter (snd (generation_loop env isIntroduction prompt (r # rounds) s)))
           = accepted"
    unfolding run by simp
qed

text \<open>
  Accepting the same chapter twice in the content review appends its section twice.
\<close>

lemma accept_twice_appends_twice:
  "content_md (snd (handleChapter sample_env
       [Generate [round_accept], Generate [round_accept], Back] sample_session))
     = content_section ''What money is'' ''A second draft about Luna''
       @ content_section ''What money is'' ''A second draft about Luna''"
  by (simp add: sample_session_def sample_chapter_def lesson_chapter_def sample_env_def
      round_accept_def generateChapterContent_def Let_def)

end
